theory Spec2Isabelle
  imports Main "HOL-Library.Sublist"
begin

section \<open>Data model\<close>

text \<open>
  \<^verbatim>\<open>main.py\<close> and \<^verbatim>\<open>streamlit_app.py\<close> pass three kinds of data around: messages
  (dicts with a role and a content), the workflow state (the TypedDict
  \<^verbatim>\<open>ContentState\<close> / \<^verbatim>\<open>AppState\<close>) and the form's input (a \<^verbatim>\<open>Dict[str, str]\<close>).
\<close>

record Message =
  role :: string
  content :: string

text \<open>
  A \<^verbatim>\<open>ContentState\<close> is a Python dict typed by the TypedDict of \<^verbatim>\<open>main.py\<close>, lines 17-28.
  A key may be absent at run time (the tasks read the message lists with
  \<^verbatim>\<open>state.get(key, [])\<close>, and a task returns a dict with one key only), so every field
  is optional: \<open>None\<close> is an absent key.
\<close>

record ContentState =
  flagship_messages :: "Message list option"
  flagship_reflection_messages :: "Message list option"
  seasonal_event_messages :: "Message list option"
  seasonal_content_messages :: "Message list option"
  evergreen_messages :: "Message list option"
  editing_messages :: "Message list option"
  core_value_provided :: "string option"
  target_audience :: "string option"
  monetization :: "string option"
  persona :: "string option"

text \<open>The dict with no key.\<close>

definition no_entries :: ContentState where
  "no_entries =
     \<lparr>flagship_messages = None, flagship_reflection_messages = None,
      seasonal_event_messages = None, seasonal_content_messages = None,
      evergreen_messages = None, editing_messages = None,
      core_value_provided = None, target_audience = None,
      monetization = None, persona = None\<rparr>"

text \<open>The keys a dict holds, in the TypedDict's order.\<close>

definition keys :: "ContentState \<Rightarrow> string list" where
  "keys d =
     (if flagship_messages d = None then [] else [''flagship_messages'']) @
     (if flagship_reflection_messages d = None then [] else [''flagship_reflection_messages'']) @
     (if seasonal_event_messages d = None then [] else [''seasonal_event_messages'']) @
     (if seasonal_content_messages d = None then [] else [''seasonal_content_messages'']) @
     (if evergreen_messages d = None then [] else [''evergreen_messages'']) @
     (if editing_messages d = None then [] else [''editing_messages'']) @
     (if core_value_provided d = None then [] else [''core_value_provided'']) @
     (if target_audience d = None then [] else [''target_audience'']) @
     (if monetization d = None then [] else [''monetization'']) @
     (if persona d = None then [] else [''persona''])"

text \<open>
  Everything that can be raised: a missing dict key or template field (\<^verbatim>\<open>KeyError\<close>), an
  exception of the model call (whatever the client raises, with its text), and the two
  errors of the graph runner.
\<close>

datatype error =
  KeyError string
  | ModelError string
  | InvalidUpdateError string
  | GraphRecursionError

definition and_then :: "error + 'a \<Rightarrow> ('a \<Rightarrow> error + 'b) \<Rightarrow> error + 'b" where
  "and_then r f = (case r of Inl e \<Rightarrow> Inl e | Inr v \<Rightarrow> f v)"

text \<open>\<^verbatim>\<open>d[k]\<close> on an optional entry: a missing key raises \<^verbatim>\<open>KeyError(k)\<close>.\<close>

definition item :: "string \<Rightarrow> 'a option \<Rightarrow> error + 'a" where
  "item k entry = (case entry of None \<Rightarrow> Inl (KeyError k) | Some v \<Rightarrow> Inr v)"

text \<open>\<^verbatim>\<open>d.get(k, default)\<close> on an optional entry.\<close>

definition get_default :: "'a option \<Rightarrow> 'a \<Rightarrow> 'a" where
  "get_default entry d = (case entry of None \<Rightarrow> d | Some v \<Rightarrow> v)"

text \<open>\<^verbatim>\<open>sep.join(xs)\<close>.\<close>

fun join :: "string \<Rightarrow> string list \<Rightarrow> string" where
  "join sep [] = []"
| "join sep [x] = x"
| "join sep (x # y # ys) = x @ sep @ join sep (y # ys)"

text \<open>The line separator \<^verbatim>\<open>"\n"\<close>.\<close>

definition newline :: string where
  "newline = [CHR 0x0A]"

section \<open>Prompt templates\<close>

text \<open>
  The six templates are imported from \<^verbatim>\<open>prompts.py\<close>, which is not among the sources:
  they are parameters of the model. A template is taken the way \<^verbatim>\<open>str.format\<close> reads it,
  as literal text interleaved with replacement fields named by keyword.
  \<^verbatim>\<open>template.format(**kw)\<close> replaces each field by its keyword's value, raises
  \<^verbatim>\<open>KeyError\<close> at the first field (from the left) that has no keyword, and ignores
  keywords no field names.
\<close>

datatype piece = Lit string | Field string

type_synonym template = "piece list"

fun format_template :: "template \<Rightarrow> (string \<times> string) list \<Rightarrow> error + string" where
  "format_template [] kw = Inr []"
| "format_template (Lit t # ps) kw =
     and_then (format_template ps kw) (\<lambda>rest. Inr (t @ rest))"
| "format_template (Field n # ps) kw =
     (case map_of kw n of
        None \<Rightarrow> Inl (KeyError n)
      | Some v \<Rightarrow> and_then (format_template ps kw) (\<lambda>rest. Inr (v @ rest)))"

record prompts =
  FLAGSHIP_PROMPT :: template
  FLAGSHIP_REFLECTION_PROMPT :: template
  SEASONAL_PROMPT :: template
  SEASONAL_CONTENT_PROMPT :: template
  EVERGREEN_PROMPT :: template
  Edit_PROMPT :: template

section \<open>The six tasks (\<^verbatim>\<open>main.py\<close>)\<close>

text \<open>
  The model call \<^verbatim>\<open>self.model.invoke(prompt)\<close> followed by \<^verbatim>\<open>response.content\<close>: given
  the prompt it returns the completion's text, or raises.
\<close>

type_synonym llm = "string \<Rightarrow> error + string"

definition assistant :: "string \<Rightarrow> Message" where
  "assistant text = \<lparr>role = ''assistant'', content = text\<rparr>"

text \<open>
  The four keyword arguments every task passes to \<^verbatim>\<open>format\<close>, read with
  \<^verbatim>\<open>state["..."]\<close> in the order the source writes them.
\<close>

definition positioning_kwargs :: "ContentState \<Rightarrow> error + (string \<times> string) list" where
  "positioning_kwargs state =
     and_then (item ''core_value_provided'' (core_value_provided state)) (\<lambda>cv.
     and_then (item ''target_audience'' (target_audience state)) (\<lambda>ta.
     and_then (item ''persona'' (persona state)) (\<lambda>pe.
     and_then (item ''monetization'' (monetization state)) (\<lambda>mo.
       Inr [(''core_value_provided'', cv), (''target_audience'', ta),
            (''persona'', pe), (''monetization'', mo)]))))"

text \<open>\<^verbatim>\<open>"\n".join([msg["content"] for msg in state.get(key, [])])\<close>.\<close>

definition joined_content :: "Message list option \<Rightarrow> string" where
  "joined_content entry = join newline (map content (get_default entry []))"

text \<open>\<^verbatim>\<open>FlagshipAgent.flagship\<close>, lines 35-47.\<close>

definition flagship_prompt :: "prompts \<Rightarrow> ContentState \<Rightarrow> error + string" where
  "flagship_prompt P state =
     and_then (positioning_kwargs state) (\<lambda>kw. format_template (FLAGSHIP_PROMPT P) kw)"

definition flagship :: "prompts \<Rightarrow> llm \<Rightarrow> ContentState \<Rightarrow> error + ContentState" where
  "flagship P model state =
     and_then (flagship_prompt P state) (\<lambda>prompt.
     and_then (model prompt) (\<lambda>response.
       Inr (no_entries\<lparr>flagship_messages := Some [assistant response]\<rparr>)))"

text \<open>\<^verbatim>\<open>FlagshipReflectionAgent.flagship_reflection\<close>, lines 53-68.\<close>

definition flagship_reflection_prompt :: "prompts \<Rightarrow> ContentState \<Rightarrow> error + string" where
  "flagship_reflection_prompt P state =
     (let flagship_content = joined_content (flagship_messages state) in
      and_then (positioning_kwargs state) (\<lambda>kw.
        format_template (FLAGSHIP_REFLECTION_PROMPT P)
          (kw @ [(''flagship_content'', flagship_content)])))"

definition flagship_reflection :: "prompts \<Rightarrow> llm \<Rightarrow> ContentState \<Rightarrow> error + ContentState" where
  "flagship_reflection P model state =
     and_then (flagship_reflection_prompt P state) (\<lambda>prompt.
     and_then (model prompt) (\<lambda>response.
       Inr (no_entries\<lparr>flagship_reflection_messages := Some [assistant response]\<rparr>)))"

text \<open>\<^verbatim>\<open>SeasonalEventAgent.seasonal_event\<close>, lines 74-86.\<close>

definition seasonal_event_prompt :: "prompts \<Rightarrow> ContentState \<Rightarrow> error + string" where
  "seasonal_event_prompt P state =
     and_then (positioning_kwargs state) (\<lambda>kw. format_template (SEASONAL_PROMPT P) kw)"

definition seasonal_event :: "prompts \<Rightarrow> llm \<Rightarrow> ContentState \<Rightarrow> error + ContentState" where
  "seasonal_event P model state =
     and_then (seasonal_event_prompt P state) (\<lambda>prompt.
     and_then (model prompt) (\<lambda>response.
       Inr (no_entries\<lparr>seasonal_event_messages := Some [assistant response]\<rparr>)))"

text \<open>\<^verbatim>\<open>SeasonalContentAgent.seasonal_content\<close>, lines 92-107.\<close>

definition seasonal_content_prompt :: "prompts \<Rightarrow> ContentState \<Rightarrow> error + string" where
  "seasonal_content_prompt P state =
     (let seasonal_events = joined_content (seasonal_event_messages state) in
      and_then (positioning_kwargs state) (\<lambda>kw.
        format_template (SEASONAL_CONTENT_PROMPT P)
          (kw @ [(''seasonal_events'', seasonal_events)])))"

definition seasonal_content :: "prompts \<Rightarrow> llm \<Rightarrow> ContentState \<Rightarrow> error + ContentState" where
  "seasonal_content P model state =
     and_then (seasonal_content_prompt P state) (\<lambda>prompt.
     and_then (model prompt) (\<lambda>response.
       Inr (no_entries\<lparr>seasonal_content_messages := Some [assistant response]\<rparr>)))"

text \<open>\<^verbatim>\<open>EvergreenAgent.evergreen\<close>, lines 113-125.\<close>

definition evergreen_prompt :: "prompts \<Rightarrow> ContentState \<Rightarrow> error + string" where
  "evergreen_prompt P state =
     and_then (positioning_kwargs state) (\<lambda>kw. format_template (EVERGREEN_PROMPT P) kw)"

definition evergreen :: "prompts \<Rightarrow> llm \<Rightarrow> ContentState \<Rightarrow> error + ContentState" where
  "evergreen P model state =
     and_then (evergreen_prompt P state) (\<lambda>prompt.
     and_then (model prompt) (\<lambda>response.
       Inr (no_entries\<lparr>evergreen_messages := Some [assistant response]\<rparr>)))"

text \<open>\<^verbatim>\<open>EditingAgent.editing\<close>, lines 131-150.\<close>

definition editing_prompt :: "prompts \<Rightarrow> ContentState \<Rightarrow> error + string" where
  "editing_prompt P state =
     (let flagship_content = joined_content (flagship_reflection_messages state);
          seasonal_content = joined_content (seasonal_content_messages state);
          evergreen_content = joined_content (evergreen_messages state) in
      and_then (positioning_kwargs state) (\<lambda>kw.
        format_template (Edit_PROMPT P)
          (kw @ [(''flagship_content'', flagship_content),
                 (''seasonal_content'', seasonal_content),
                 (''evergreen_content'', evergreen_content)])))"

definition editing :: "prompts \<Rightarrow> llm \<Rightarrow> ContentState \<Rightarrow> error + ContentState" where
  "editing P model state =
     and_then (editing_prompt P state) (\<lambda>prompt.
     and_then (model prompt) (\<lambda>response.
       Inr (no_entries\<lparr>editing_messages := Some [assistant response]\<rparr>)))"

section \<open>The task graph (\<^verbatim>\<open>create_graph\<close>) and its runner\<close>

text \<open>
  \<^verbatim>\<open>create_graph\<close>, lines 152-188, registers six nodes and nine edges on a langgraph
  \<^verbatim>\<open>StateGraph\<close> and compiles it. A graph is what the calls leave behind: the nodes in
  the order of the \<^verbatim>\<open>add_node\<close> calls and the edges in the order of the \<^verbatim>\<open>add_edge\<close>
  calls. \<^verbatim>\<open>START\<close> and \<^verbatim>\<open>END\<close> are langgraph's two reserved node names.
\<close>

type_synonym node = "string \<times> (ContentState \<Rightarrow> error + ContentState)"

record graph =
  nodes :: "node list"
  edges :: "(string \<times> string) list"

definition START :: string where
  "START = ''__start__''"

definition END :: string where
  "END = ''__end__''"

definition create_graph :: "prompts \<Rightarrow> llm \<Rightarrow> graph" where
  "create_graph P model =
     \<lparr>nodes =
        [(''flagship'', flagship P model),
         (''flagship_reflection'', flagship_reflection P model),
         (''seasonal_event'', seasonal_event P model),
         (''seasonal_content'', seasonal_content P model),
         (''evergreen'', evergreen P model),
         (''editing'', editing P model)],
      edges =
        [(START, ''flagship''),
         (START, ''seasonal_event''),
         (START, ''evergreen''),
         (''flagship'', ''flagship_reflection''),
         (''flagship_reflection'', ''editing''),
         (''seasonal_event'', ''seasonal_content''),
         (''seasonal_content'', ''editing''),
         (''evergreen'', ''editing''),
         (''editing'', END)]\<rparr>"

text \<open>
  The runner is langgraph's, a library the repository imports; what follows is the part
  of it this graph exercises. A compiled \<^verbatim>\<open>StateGraph\<close> runs in supersteps. An edge
  \<^verbatim>\<open>add_edge(a, b)\<close> whose start is one node name subscribes \<open>b\<close> to \<open>a\<close>: \<open>b\<close> is a
  task of the superstep that follows any superstep in which \<open>a\<close> ran. (Only an edge whose
  start is a list of names, \<^verbatim>\<open>add_edge([a1, a2], b)\<close>, makes \<open>b\<close> wait for all of
  them; \<^verbatim>\<open>create_graph\<close> has no such edge.) The first superstep holds the nodes with an
  edge from \<^verbatim>\<open>START\<close>. Nothing subscribes to \<^verbatim>\<open>END\<close>.
\<close>

definition next_tasks :: "graph \<Rightarrow> string list \<Rightarrow> node list" where
  "next_tasks g finished =
     [t \<leftarrow> nodes g. \<exists>m \<in> set finished. (m, fst t) \<in> set (edges g)]"

text \<open>
  The tasks of one superstep all read the state as it was when the superstep began; each
  returns a dict of the keys it writes. An exception in any task ends the run with that
  exception. (The library runs the tasks of a superstep concurrently; the model runs
  them in node order, which decides nothing but which of two failures is reported.)
\<close>

fun run_tasks :: "node list \<Rightarrow> ContentState \<Rightarrow> error + ContentState list" where
  "run_tasks [] state = Inr []"
| "run_tasks (t # ts) state =
     and_then (snd t state) (\<lambda>w.
     and_then (run_tasks ts state) (\<lambda>ws. Inr (w # ws)))"

text \<open>
  \<^verbatim>\<open>ContentState\<close> names no reducer for any key (the \<^verbatim>\<open>Annotated\<close> metadata are the
  strings "config" and "messages"), so every key is a last-value channel: a write replaces
  the value, and two writes to one key in the same superstep raise
  \<^verbatim>\<open>InvalidUpdateError\<close>.
\<close>

definition dict_update :: "ContentState \<Rightarrow> ContentState \<Rightarrow> ContentState" where
  "dict_update state w =
     \<lparr>flagship_messages =
        (case flagship_messages w of None \<Rightarrow> flagship_messages state | Some v \<Rightarrow> Some v),
      flagship_reflection_messages =
        (case flagship_reflection_messages w of
           None \<Rightarrow> flagship_reflection_messages state | Some v \<Rightarrow> Some v),
      seasonal_event_messages =
        (case seasonal_event_messages w of
           None \<Rightarrow> seasonal_event_messages state | Some v \<Rightarrow> Some v),
      seasonal_content_messages =
        (case seasonal_content_messages w of
           None \<Rightarrow> seasonal_content_messages state | Some v \<Rightarrow> Some v),
      evergreen_messages =
        (case evergreen_messages w of None \<Rightarrow> evergreen_messages state | Some v \<Rightarrow> Some v),
      editing_messages =
        (case editing_messages w of None \<Rightarrow> editing_messages state | Some v \<Rightarrow> Some v),
      core_value_provided =
        (case core_value_provided w of None \<Rightarrow> core_value_provided state | Some v \<Rightarrow> Some v),
      target_audience =
        (case target_audience w of None \<Rightarrow> target_audience state | Some v \<Rightarrow> Some v),
      monetization =
        (case monetization w of None \<Rightarrow> monetization state | Some v \<Rightarrow> Some v),
      persona =
        (case persona w of None \<Rightarrow> persona state | Some v \<Rightarrow> Some v)\<rparr>"

definition apply_writes :: "ContentState \<Rightarrow> ContentState list \<Rightarrow> error + ContentState" where
  "apply_writes state ws =
     (if distinct (concat (map keys ws)) then Inr (foldl dict_update state ws)
      else Inl (InvalidUpdateError ''Can receive only one value per step.''))"

text \<open>One superstep: from the tasks due and the state to the tasks due next and the new state.\<close>

definition superstep ::
  "graph \<Rightarrow> node list \<times> ContentState \<Rightarrow> error + (node list \<times> ContentState)" where
  "superstep g c =
     and_then (run_tasks (fst c) (snd c)) (\<lambda>ws.
     and_then (apply_writes (snd c) ws) (\<lambda>state'.
       Inr (next_tasks g (map fst (fst c)), state')))"

text \<open>
  The loop ends when no task is due. The library bounds the number of supersteps by its
  recursion limit and raises \<^verbatim>\<open>GraphRecursionError\<close> beyond it; the limit is the fuel.
\<close>

fun pregel_loop :: "nat \<Rightarrow> graph \<Rightarrow> node list \<Rightarrow> ContentState \<Rightarrow> error + ContentState" where
  "pregel_loop fuel g [] state = Inr state"
| "pregel_loop 0 g (t # ts) state = Inl GraphRecursionError"
| "pregel_loop (Suc fuel) g (t # ts) state =
     and_then (superstep g (t # ts, state)) (\<lambda>c. pregel_loop fuel g (fst c) (snd c))"

definition recursion_limit :: nat where
  "recursion_limit = 25"

text \<open>\<^verbatim>\<open>graph.invoke(initial_state)\<close>: the state when the loop ends.\<close>

definition invoke :: "graph \<Rightarrow> ContentState \<Rightarrow> error + ContentState" where
  "invoke g initial_state = pregel_loop recursion_limit g (next_tasks g [START]) initial_state"

section \<open>The form and the top level (\<^verbatim>\<open>streamlit_app.py\<close>)\<close>

text \<open>What the page shows: \<^verbatim>\<open>st.info\<close>, \<^verbatim>\<open>st.error\<close> and \<^verbatim>\<open>st.success\<close> calls, in order.\<close>

datatype ui_event = StInfo string | StError string | StSuccess string

text \<open>
  \<^verbatim>\<open>repr(s)\<close> of a string. The quote is the single quote, unless the string holds a
  single quote and no double quote: then it is the double quote. The quote and the
  backslash are escaped by a backslash, tab, line feed and carriage return are written
  with their letters, every other control character as a two-digit hexadecimal escape.
  (Strings are byte strings here; a byte above 127, part of an encoded printable
  character, stays as it is.)
\<close>

definition hex_digit :: "nat \<Rightarrow> char" where
  "hex_digit n = ''0123456789abcdef'' ! (n mod 16)"

definition repr_char :: "char \<Rightarrow> char \<Rightarrow> string" where
  "repr_char quote c =
     (if c = quote \<or> c = CHR 0x5C then [CHR 0x5C, c]
      else if c = CHR 0x09 then [CHR 0x5C, CHR ''t'']
      else if c = CHR 0x0A then [CHR 0x5C, CHR ''n'']
      else if c = CHR 0x0D then [CHR 0x5C, CHR ''r'']
      else if (of_char c :: nat) < 32 \<or> (of_char c :: nat) = 127 then
        [CHR 0x5C, CHR ''x'', hex_digit (of_char c div 16), hex_digit (of_char c mod 16)]
      else [c])"

definition repr :: "string \<Rightarrow> string" where
  "repr s =
     (let quote = (if CHR 0x27 \<in> set s \<and> CHR 0x22 \<notin> set s then CHR 0x22 else CHR 0x27)
      in quote # concat (map (repr_char quote) s) @ [quote])"

text \<open>\<^verbatim>\<open>str(e)\<close>; for a \<^verbatim>\<open>KeyError\<close> it is the \<^verbatim>\<open>repr\<close> of the key.\<close>

fun str_of_error :: "error \<Rightarrow> string" where
  "str_of_error (KeyError k) = repr k"
| "str_of_error (ModelError m) = m"
| "str_of_error (InvalidUpdateError m) = m"
| "str_of_error GraphRecursionError = ''Recursion limit reached''"

text \<open>\<^verbatim>\<open>get_api_key\<close>, lines 73-85, on the text typed into the key field.\<close>

definition get_api_key :: "string \<Rightarrow> string option \<times> ui_event list" where
  "get_api_key api_key =
     (if api_key = [] then (None, [StInfo ''Please add your Groq API key to continue.''])
      else (Some api_key, []))"

text \<open>
  \<^verbatim>\<open>create_input_form\<close>, lines 87-131, on the state of the submit button and the texts
  of the four text areas. The result is the returned dict, or \<open>None\<close>.
\<close>

definition create_input_form ::
  "bool \<Rightarrow> string \<Rightarrow> string \<Rightarrow> string \<Rightarrow> string \<Rightarrow> (string \<rightharpoonup> string) option \<times> ui_event list" where
  "create_input_form submit_button cv ta pe mo =
     (if submit_button then
        (if \<not> list_all (\<lambda>text. text \<noteq> []) [cv, ta, pe, mo] then
           (None, [StError ''Please fill in all fields before generating suggestions.''])
         else
           (Some [''core_value'' \<mapsto> cv, ''target_audience'' \<mapsto> ta,
                  ''persona'' \<mapsto> pe, ''monetization'' \<mapsto> mo], []))
      else (None, []))"

text \<open>\<^verbatim>\<open>create_initial_state\<close>, lines 133-146.\<close>

definition create_initial_state :: "(string \<rightharpoonup> string) \<Rightarrow> error + ContentState" where
  "create_initial_state input_data =
     and_then (item ''core_value'' (input_data ''core_value'')) (\<lambda>cv.
     and_then (item ''target_audience'' (input_data ''target_audience'')) (\<lambda>ta.
     and_then (item ''persona'' (input_data ''persona'')) (\<lambda>pe.
     and_then (item ''monetization'' (input_data ''monetization'')) (\<lambda>mo.
       Inr \<lparr>flagship_messages = Some [], flagship_reflection_messages = Some [],
            seasonal_event_messages = Some [], seasonal_content_messages = Some [],
            evergreen_messages = Some [], editing_messages = Some [],
            core_value_provided = Some cv, target_audience = Some ta,
            monetization = Some mo, persona = Some pe\<rparr>))))"

text \<open>
  One block of lines 171-202:
  \<^verbatim>\<open>if final_state.get(key): all_messages.append(header); all_messages.extend(final_state[key])\<close>.
  A missing key and an empty list are both falsy.
\<close>

definition add_section :: "string \<Rightarrow> Message list option \<Rightarrow> Message list \<Rightarrow> Message list" where
  "add_section header entry all_messages =
     (case entry of
        None \<Rightarrow> all_messages
      | Some msgs \<Rightarrow>
          if msgs = [] then all_messages else (all_messages @ [assistant header]) @ msgs)"

definition collect_messages :: "ContentState \<Rightarrow> Message list" where
  "collect_messages final_state =
     (let all_messages = [];
          all_messages = add_section ''## Flagship Content Ideas''
            (flagship_messages final_state) all_messages;
          all_messages = add_section ''## Top Flagship Content Analysis''
            (flagship_reflection_messages final_state) all_messages;
          all_messages = add_section ''## Seasonal Events''
            (seasonal_event_messages final_state) all_messages;
          all_messages = add_section ''## Seasonal Content Ideas''
            (seasonal_content_messages final_state) all_messages;
          all_messages = add_section ''## Evergreen Content Ideas''
            (evergreen_messages final_state) all_messages;
          all_messages = add_section ''## Content Strategy Summary''
            (editing_messages final_state) all_messages
      in all_messages)"

text \<open>
  \<^verbatim>\<open>generate_suggestions\<close>, lines 148-208. \<open>ChatGroq\<close> is the client constructor: from the
  API key to the model. Everything raised inside the \<^verbatim>\<open>try\<close> is caught by the one
  \<^verbatim>\<open>except\<close>, which shows the error and returns \<open>None\<close>.
\<close>

definition generate_suggestions ::
  "prompts \<Rightarrow> (string \<Rightarrow> llm) \<Rightarrow> string \<Rightarrow> (string \<rightharpoonup> string) \<Rightarrow>
     Message list option \<times> ui_event list" where
  "generate_suggestions P ChatGroq api_key input_data =
     (let chat_groq = ChatGroq api_key;
          graph = create_graph P chat_groq in
      case and_then (create_initial_state input_data) (\<lambda>initial_state.
             invoke graph initial_state) of
        Inl e \<Rightarrow>
          (None, [StError (''An error occurred while generating suggestions: '' @ str_of_error e)])
      | Inr final_state \<Rightarrow>
          (Some (collect_messages final_state),
           [StSuccess ''Suggestions generated successfully!'']))"

text \<open>
  \<^verbatim>\<open>main\<close>, lines 217-224: the key, the form, the run. The result says whether
  \<^verbatim>\<open>generate_suggestions\<close> was called, and with what outcome. (The page set-up before
  and the tabs after are display only.)
\<close>

datatype run = NotRun | Ran "Message list option"

definition main ::
  "prompts \<Rightarrow> (string \<Rightarrow> llm) \<Rightarrow> string \<Rightarrow> bool \<Rightarrow> string \<Rightarrow> string \<Rightarrow> string \<Rightarrow> string \<Rightarrow>
     run \<times> ui_event list" where
  "main P ChatGroq key_text submit_button cv ta pe mo =
     (case get_api_key key_text of
        (None, shown) \<Rightarrow> (NotRun, shown)
      | (Some api_key, shown) \<Rightarrow>
          (case create_input_form submit_button cv ta pe mo of
             (None, shown') \<Rightarrow> (NotRun, shown @ shown')
           | (Some input_data, shown') \<Rightarrow>
               (case generate_suggestions P ChatGroq api_key input_data of
                  (suggestions, shown'') \<Rightarrow> (Ran suggestions, shown @ shown' @ shown''))))"

section \<open>Notions the properties are stated with\<close>

text \<open>
  The names of the four positioning keys and of the six task-output keys, in the order of
  the TypedDict.
\<close>

definition message_keys :: "string list" where
  "message_keys =
     [''flagship_messages'', ''flagship_reflection_messages'', ''seasonal_event_messages'',
      ''seasonal_content_messages'', ''evergreen_messages'', ''editing_messages'']"

definition positioning_keys :: "string list" where
  "positioning_keys = [''core_value_provided'', ''target_audience'', ''monetization'', ''persona'']"

text \<open>
  The specification's words for what a prompt is made of. \<open>lines_joined\<close> is "concatenate
  them with a line-separator": the first text, then the line feed character (code 10,
  Python's \<^verbatim>\<open>"\n"\<close>) and the next text for every further one. The character is written
  out here, not taken from the constant the tasks use. \<open>substituted\<close> is "substituting the fields into a fixed template string":
  every piece of the template in order, a field replaced by the value bound to its name;
  a field with no value is the error.
\<close>

definition lines_joined :: "string list \<Rightarrow> string" where
  "lines_joined texts =
     (case texts of [] \<Rightarrow> [] | t # ts \<Rightarrow> foldl (\<lambda>acc u. acc @ CHR 0x0A # u) t ts)"

definition fill :: "(string \<times> string) list \<Rightarrow> piece \<Rightarrow> string" where
  "fill kw p = (case p of Lit t \<Rightarrow> t | Field n \<Rightarrow> get_default (map_of kw n) [])"

fun unbound_fields :: "template \<Rightarrow> (string \<times> string) list \<Rightarrow> string list" where
  "unbound_fields [] kw = []"
| "unbound_fields (Lit t # ps) kw = unbound_fields ps kw"
| "unbound_fields (Field n # ps) kw =
     (if map_of kw n = None then n # unbound_fields ps kw else unbound_fields ps kw)"

definition substituted :: "template \<Rightarrow> (string \<times> string) list \<Rightarrow> error + string" where
  "substituted t kw =
     (case unbound_fields t kw of
        [] \<Rightarrow> Inr (concat (map (fill kw) t))
      | n # _ \<Rightarrow> Inl (KeyError n))"

text \<open>An upstream output that is missing from the state, or present and empty.\<close>

definition absent_or_empty :: "Message list option \<Rightarrow> bool" where
  "absent_or_empty entry = (entry = None \<or> entry = Some [])"

text \<open>
  One section of the list handed to the presentation layer: the header message and the
  task's messages, or nothing at all when the task's output is missing or empty.
\<close>

definition section_of :: "string \<Rightarrow> Message list option \<Rightarrow> Message list" where
  "section_of header entry =
     (if absent_or_empty entry then [] else assistant header # get_default entry [])"

text \<open>The state after the three generation tasks, and after the second superstep, have written.\<close>

definition after_generation :: "ContentState \<Rightarrow> string \<Rightarrow> string \<Rightarrow> string \<Rightarrow> ContentState" where
  "after_generation s rf rs re =
     s\<lparr>flagship_messages := Some [assistant rf],
       seasonal_event_messages := Some [assistant rs],
       evergreen_messages := Some [assistant re]\<rparr>"

definition after_refinement :: "ContentState \<Rightarrow> string \<Rightarrow> string \<Rightarrow> string \<Rightarrow> ContentState" where
  "after_refinement s rfr rsc red =
     s\<lparr>flagship_reflection_messages := Some [assistant rfr],
       seasonal_content_messages := Some [assistant rsc],
       editing_messages := Some [assistant red]\<rparr>"

text \<open>
  The supersteps a run goes through, each with its tasks and the state they read. The
  recursion is \<open>pregel_loop\<close>'s: a superstep that raises is the last one.
\<close>

fun supersteps ::
  "nat \<Rightarrow> graph \<Rightarrow> node list \<Rightarrow> ContentState \<Rightarrow> (node list \<times> ContentState) list" where
  "supersteps fuel g [] state = []"
| "supersteps 0 g (t # ts) state = []"
| "supersteps (Suc fuel) g (t # ts) state =
     (t # ts, state) #
     (case superstep g (t # ts, state) of
        Inl e \<Rightarrow> []
      | Inr c \<Rightarrow> supersteps fuel g (fst c) (snd c))"

text \<open>The function that builds each node's prompt.\<close>

definition prompt_builders :: "prompts \<Rightarrow> (string \<times> (ContentState \<Rightarrow> error + string)) list" where
  "prompt_builders P =
     [(''flagship'', flagship_prompt P),
      (''flagship_reflection'', flagship_reflection_prompt P),
      (''seasonal_event'', seasonal_event_prompt P),
      (''seasonal_content'', seasonal_content_prompt P),
      (''evergreen'', evergreen_prompt P),
      (''editing'', editing_prompt P)]"

text \<open>
  Running tasks one after the other instead of in one superstep: each task reads the
  state the tasks before it left, and its dict is merged into the state before the next
  one starts.
\<close>

fun run_sequentially ::
  "(ContentState \<Rightarrow> error + ContentState) list \<Rightarrow> ContentState \<Rightarrow> error + ContentState" where
  "run_sequentially [] state = Inr state"
| "run_sequentially (task # tasks) state =
     and_then (task state) (\<lambda>w. run_sequentially tasks (dict_update state w))"

definition result_state :: "error + ContentState \<Rightarrow> ContentState option" where
  "result_state r = (case r of Inl e \<Rightarrow> None | Inr state \<Rightarrow> Some state)"

subsection \<open>Sample inputs\<close>

text \<open>
  Six small templates of the shape the specification describes (the four positioning
  fields, and the upstream texts where the task has any), a model that answers every
  prompt with the prompt in brackets, and the same model failing on the reflection prompts.
\<close>

definition positioning_pieces :: template where
  "positioning_pieces =
     [Field ''core_value_provided'', Lit ''/'', Field ''target_audience'', Lit ''/'',
      Field ''persona'', Lit ''/'', Field ''monetization'']"

definition sample_prompts :: prompts where
  "sample_prompts =
     \<lparr>FLAGSHIP_PROMPT = Lit ''flagship '' # positioning_pieces,
      FLAGSHIP_REFLECTION_PROMPT =
        Lit ''reflect '' # positioning_pieces @ [Lit '': '', Field ''flagship_content''],
      SEASONAL_PROMPT = Lit ''events '' # positioning_pieces,
      SEASONAL_CONTENT_PROMPT =
        Lit ''seasonal '' # positioning_pieces @ [Lit '': '', Field ''seasonal_events''],
      EVERGREEN_PROMPT = Lit ''evergreen '' # positioning_pieces,
      Edit_PROMPT =
        Lit ''edit '' # positioning_pieces @
        [Lit '': '', Field ''flagship_content'', Lit ''; '', Field ''seasonal_content'',
         Lit ''; '', Field ''evergreen_content'']\<rparr>"

definition bracket_model :: llm where
  "bracket_model prompt = Inr (''<'' @ prompt @ ''>'')"

definition no_reflection_model :: llm where
  "no_reflection_model prompt =
     (if take 8 prompt = ''reflect '' then Inl (ModelError ''rate limit'')
      else Inr (''<'' @ prompt @ ''>''))"

definition sample_input :: "string \<rightharpoonup> string" where
  "sample_input =
     [''core_value'' \<mapsto> ''v'', ''target_audience'' \<mapsto> ''t'',
      ''persona'' \<mapsto> ''p'', ''monetization'' \<mapsto> ''m'']"

definition sample_state :: ContentState where
  "sample_state =
     \<lparr>flagship_messages = Some [], flagship_reflection_messages = Some [],
      seasonal_event_messages = Some [], seasonal_content_messages = Some [],
      evergreen_messages = Some [], editing_messages = Some [],
      core_value_provided = Some ''v'', target_audience = Some ''t'',
      monetization = Some ''m'', persona = Some ''p''\<rparr>"

text \<open>
  The state of the specification's test: the five mock task outputs, and a persona text
  chosen by the caller.
\<close>

definition mock_state :: "string \<Rightarrow> ContentState" where
  "mock_state persona_text =
     \<lparr>flagship_messages = Some [assistant ''flagship:A''],
      flagship_reflection_messages = Some [assistant ''flagship_reflection:D''],
      seasonal_event_messages = Some [assistant ''seasonal_event:B''],
      seasonal_content_messages = Some [assistant ''seasonal_content:E''],
      evergreen_messages = Some [assistant ''evergreen:C''],
      editing_messages = Some [],
      core_value_provided = Some ''v'', target_audience = Some ''t'',
      monetization = Some ''m'', persona = Some persona_text\<rparr>"

text \<open>A state in which every task output holds several messages.\<close>

definition several_messages_state :: ContentState where
  "several_messages_state =
     \<lparr>flagship_messages = Some [assistant ''a1'', assistant ''a2''],
      flagship_reflection_messages = Some [assistant ''d1'', assistant ''d2''],
      seasonal_event_messages = Some [assistant ''b1'', assistant ''b2''],
      seasonal_content_messages = Some [assistant ''e1'', assistant ''e2''],
      evergreen_messages = Some [assistant ''c1'', assistant ''c2'', assistant ''c3''],
      editing_messages = Some [],
      core_value_provided = Some ''v'', target_audience = Some ''t'',
      monetization = Some ''m'', persona = Some ''p''\<rparr>"

text \<open>The state the sample run ends in.\<close>

definition sample_final :: ContentState where
  "sample_final =
     \<lparr>flagship_messages = Some [assistant ''<flagship v/t/p/m>''],
      flagship_reflection_messages =
        Some [assistant ''<reflect v/t/p/m: <flagship v/t/p/m>>''],
      seasonal_event_messages = Some [assistant ''<events v/t/p/m>''],
      seasonal_content_messages =
        Some [assistant ''<seasonal v/t/p/m: <events v/t/p/m>>''],
      evergreen_messages = Some [assistant ''<evergreen v/t/p/m>''],
      editing_messages =
        Some [assistant
          (''<edit v/t/p/m: <reflect v/t/p/m: <flagship v/t/p/m>>; '' @
           ''<seasonal v/t/p/m: <events v/t/p/m>>; <evergreen v/t/p/m>>'')],
      core_value_provided = Some ''v'', target_audience = Some ''t'',
      monetization = Some ''m'', persona = Some ''p''\<rparr>"

section \<open>Properties\<close>

subsection \<open>Sequencing of errors, lookups and templates\<close>


lemma and_then_Inl [simp]: "and_then (Inl e) f = Inl e"
  by (simp add: and_then_def)

lemma and_then_Inr [simp]: "and_then (Inr v) f = f v"
  by (simp add: and_then_def)

lemma and_then_eq_Inr: "and_then r f = Inr y \<longleftrightarrow> (\<exists>v. r = Inr v \<and> f v = Inr y)"
  by (cases r) simp_all

lemma item_Some [simp]: "item k (Some v) = Inr v"
  by (simp add: item_def)

lemma item_None [simp]: "item k None = Inl (KeyError k)"
  by (simp add: item_def)

lemma positioning_kwargs_present:
  assumes "core_value_provided s = Some cv" "target_audience s = Some ta"
    "persona s = Some pe" "monetization s = Some mo"
  shows "positioning_kwargs s =
    Inr [(''core_value_provided'', cv), (''target_audience'', ta),
         (''persona'', pe), (''monetization'', mo)]"
  using assms by (simp add: positioning_kwargs_def)

lemma foldl_join: "foldl (\<lambda>acc u. acc @ sep @ u) (a @ t) ts = a @ foldl (\<lambda>acc u. acc @ sep @ u) t ts"
  by (induction ts arbitrary: t) simp_all

lemma join_foldl: "join sep (t # ts) = foldl (\<lambda>acc u. acc @ sep @ u) t ts"
proof (induction ts arbitrary: t)
  case Nil
  show ?case by simp
next
  case (Cons u us)
  have "join sep (t # u # us) = t @ sep @ join sep (u # us)" by simp
  also have "\<dots> = t @ sep @ foldl (\<lambda>acc u. acc @ sep @ u) u us" by (simp only: Cons.IH)
  also have "\<dots> = foldl (\<lambda>acc u. acc @ sep @ u) ((t @ sep) @ u) us"
    by (simp only: foldl_join append_assoc)
  finally show ?case by simp
qed

lemma join_lines_joined: "join newline texts = lines_joined texts"
  by (cases texts) (simp_all add: lines_joined_def join_foldl newline_def)

lemma joined_content_lines:
  "joined_content entry = lines_joined (map content (get_default entry []))"
  by (simp add: joined_content_def join_lines_joined)

lemma format_template_substituted: "format_template t kw = substituted t kw"
proof (induction t kw rule: format_template.induct)
  case (1 kw)
  show ?case by (simp add: substituted_def)
next
  case (2 t ps kw)
  then show ?case
    by (simp add: substituted_def fill_def split: list.splits)
next
  case (3 n ps kw)
  then show ?case
    by (simp add: substituted_def fill_def get_default_def split: list.splits option.splits)
qed

lemma sublist_prepend: "sublist v rest \<Longrightarrow> sublist v (x @ rest)"
proof -
  assume "sublist v rest"
  then obtain ps ss where "rest = ps @ v @ ss" by (auto simp: sublist_def)
  then have "x @ rest = (x @ ps) @ v @ ss" by simp
  then show ?thesis unfolding sublist_def by blast
qed

lemma format_template_contains:
  "format_template t kw = Inr p \<Longrightarrow> Field n \<in> set t \<Longrightarrow> map_of kw n = Some v \<Longrightarrow> sublist v p"
proof (induction t arbitrary: p)
  case Nil
  then show ?case by simp
next
  case (Cons q qs)
  show ?case
  proof (cases q)
    case (Lit x)
    with Cons.prems obtain rest where r: "format_template qs kw = Inr rest" "p = x @ rest"
      by (auto simp: and_then_eq_Inr)
    from Cons.prems Lit have "Field n \<in> set qs" by simp
    from Cons.IH [OF r(1) this Cons.prems(3)] have "sublist v rest" .
    then show ?thesis using r(2) by (simp add: sublist_prepend)
  next
    case (Field m)
    with Cons.prems obtain w rest where
      r: "map_of kw m = Some w" "format_template qs kw = Inr rest" "p = w @ rest"
      by (auto simp: and_then_eq_Inr split: option.splits)
    show ?thesis
    proof (cases "m = n")
      case True
      with r Cons.prems(3) have "p = v @ rest" by simp
      then show ?thesis by simp
    next
      case False
      with Cons.prems Field have "Field n \<in> set qs" by simp
      from Cons.IH [OF r(2) this Cons.prems(3)] have "sublist v rest" .
      then show ?thesis using r(3) by (simp add: sublist_prepend)
    qed
  qed
qed


lemma first_tasks:
  "next_tasks (create_graph P model) [START] =
     [(''flagship'', flagship P model), (''seasonal_event'', seasonal_event P model),
      (''evergreen'', evergreen P model)]"
  by (simp add: next_tasks_def create_graph_def START_def END_def)

lemma second_tasks:
  "next_tasks (create_graph P model) [''flagship'', ''seasonal_event'', ''evergreen''] =
     [(''flagship_reflection'', flagship_reflection P model),
      (''seasonal_content'', seasonal_content P model),
      (''editing'', editing P model)]"
  by (simp add: next_tasks_def create_graph_def START_def END_def)

lemma third_tasks:
  "next_tasks (create_graph P model) [''flagship_reflection'', ''seasonal_content'', ''editing''] =
     [(''editing'', editing P model)]"
  by (simp add: next_tasks_def create_graph_def START_def END_def)

lemma fourth_tasks:
  "next_tasks (create_graph P model) [''editing''] = []"
  by (simp add: next_tasks_def create_graph_def START_def END_def)

lemma flagship_eq_Inr:
  "flagship P model s = Inr w \<longleftrightarrow>
     (\<exists>r. and_then (flagship_prompt P s) model = Inr r \<and>
          w = no_entries\<lparr>flagship_messages := Some [assistant r]\<rparr>)"
  by (auto simp: flagship_def and_then_eq_Inr)

lemma seasonal_event_eq_Inr:
  "seasonal_event P model s = Inr w \<longleftrightarrow>
     (\<exists>r. and_then (seasonal_event_prompt P s) model = Inr r \<and>
          w = no_entries\<lparr>seasonal_event_messages := Some [assistant r]\<rparr>)"
  by (auto simp: seasonal_event_def and_then_eq_Inr)

lemma evergreen_eq_Inr:
  "evergreen P model s = Inr w \<longleftrightarrow>
     (\<exists>r. and_then (evergreen_prompt P s) model = Inr r \<and>
          w = no_entries\<lparr>evergreen_messages := Some [assistant r]\<rparr>)"
  by (auto simp: evergreen_def and_then_eq_Inr)

lemma flagship_reflection_eq_Inr:
  "flagship_reflection P model s = Inr w \<longleftrightarrow>
     (\<exists>r. and_then (flagship_reflection_prompt P s) model = Inr r \<and>
          w = no_entries\<lparr>flagship_reflection_messages := Some [assistant r]\<rparr>)"
  by (auto simp: flagship_reflection_def and_then_eq_Inr)

lemma seasonal_content_eq_Inr:
  "seasonal_content P model s = Inr w \<longleftrightarrow>
     (\<exists>r. and_then (seasonal_content_prompt P s) model = Inr r \<and>
          w = no_entries\<lparr>seasonal_content_messages := Some [assistant r]\<rparr>)"
  by (auto simp: seasonal_content_def and_then_eq_Inr)

lemma editing_eq_Inr:
  "editing P model s = Inr w \<longleftrightarrow>
     (\<exists>r. and_then (editing_prompt P s) model = Inr r \<and>
          w = no_entries\<lparr>editing_messages := Some [assistant r]\<rparr>)"
  by (auto simp: editing_def and_then_eq_Inr)

lemma apply_writes_first:
  "apply_writes s
     [no_entries\<lparr>flagship_messages := Some a\<rparr>,
      no_entries\<lparr>seasonal_event_messages := Some b\<rparr>,
      no_entries\<lparr>evergreen_messages := Some c\<rparr>] =
   Inr (s\<lparr>flagship_messages := Some a, seasonal_event_messages := Some b,
          evergreen_messages := Some c\<rparr>)"
  by (simp add: apply_writes_def keys_def no_entries_def dict_update_def)

lemma apply_writes_second:
  "apply_writes s
     [no_entries\<lparr>flagship_reflection_messages := Some a\<rparr>,
      no_entries\<lparr>seasonal_content_messages := Some b\<rparr>,
      no_entries\<lparr>editing_messages := Some c\<rparr>] =
   Inr (s\<lparr>flagship_reflection_messages := Some a, seasonal_content_messages := Some b,
          editing_messages := Some c\<rparr>)"
  by (simp add: apply_writes_def keys_def no_entries_def dict_update_def)

lemma apply_writes_third:
  "apply_writes s [no_entries\<lparr>editing_messages := Some c\<rparr>] =
   Inr (s\<lparr>editing_messages := Some c\<rparr>)"
  by (simp add: apply_writes_def keys_def no_entries_def dict_update_def)


lemma superstep_first:
  "superstep (create_graph P model) (next_tasks (create_graph P model) [START], s) = Inr c \<longleftrightarrow>
     (\<exists>rf rs re.
        and_then (flagship_prompt P s) model = Inr rf \<and>
        and_then (seasonal_event_prompt P s) model = Inr rs \<and>
        and_then (evergreen_prompt P s) model = Inr re \<and>
        c = (next_tasks (create_graph P model) [''flagship'', ''seasonal_event'', ''evergreen''],
             after_generation s rf rs re))"
  by (auto simp: superstep_def first_tasks and_then_eq_Inr flagship_eq_Inr
      seasonal_event_eq_Inr evergreen_eq_Inr apply_writes_first after_generation_def)

lemma superstep_second:
  "superstep (create_graph P model)
     (next_tasks (create_graph P model) [''flagship'', ''seasonal_event'', ''evergreen''], s) = Inr c \<longleftrightarrow>
     (\<exists>rfr rsc red.
        and_then (flagship_reflection_prompt P s) model = Inr rfr \<and>
        and_then (seasonal_content_prompt P s) model = Inr rsc \<and>
        and_then (editing_prompt P s) model = Inr red \<and>
        c = (next_tasks (create_graph P model)
               [''flagship_reflection'', ''seasonal_content'', ''editing''],
             after_refinement s rfr rsc red))"
  by (auto simp: superstep_def second_tasks and_then_eq_Inr flagship_reflection_eq_Inr
      seasonal_content_eq_Inr editing_eq_Inr apply_writes_second after_refinement_def)

lemma superstep_third:
  "superstep (create_graph P model)
     (next_tasks (create_graph P model)
        [''flagship_reflection'', ''seasonal_content'', ''editing''], s) = Inr c \<longleftrightarrow>
     (\<exists>red.
        and_then (editing_prompt P s) model = Inr red \<and>
        c = ([], s\<lparr>editing_messages := Some [assistant red]\<rparr>))"
  by (auto simp: superstep_def third_tasks fourth_tasks and_then_eq_Inr
      editing_eq_Inr apply_writes_third)

lemma pregel_loop_Suc:
  "tasks \<noteq> [] \<Longrightarrow>
   pregel_loop (Suc fuel) g tasks s =
     and_then (superstep g (tasks, s)) (\<lambda>c. pregel_loop fuel g (fst c) (snd c))"
  by (cases tasks) simp_all

lemma pregel_loop_numeral:
  "tasks \<noteq> [] \<Longrightarrow>
   pregel_loop (numeral k) g tasks s =
     and_then (superstep g (tasks, s)) (\<lambda>c. pregel_loop (pred_numeral k) g (fst c) (snd c))"
  by (simp add: numeral_eq_Suc pregel_loop_Suc)

lemma first_tasks_nonempty: "next_tasks (create_graph P model) [START] \<noteq> []"
  by (simp add: first_tasks)

lemma second_tasks_nonempty:
  "next_tasks (create_graph P model) [''flagship'', ''seasonal_event'', ''evergreen''] \<noteq> []"
  by (simp add: second_tasks)

lemma third_tasks_nonempty:
  "next_tasks (create_graph P model)
     [''flagship_reflection'', ''seasonal_content'', ''editing''] \<noteq> []"
  by (simp add: third_tasks)

lemma invoke_create_graph:
  "invoke (create_graph P model) s = Inr fs \<longleftrightarrow>
     (\<exists>rf rs re rfr rsc early red.
        and_then (flagship_prompt P s) model = Inr rf \<and>
        and_then (seasonal_event_prompt P s) model = Inr rs \<and>
        and_then (evergreen_prompt P s) model = Inr re \<and>
        and_then (flagship_reflection_prompt P (after_generation s rf rs re)) model = Inr rfr \<and>
        and_then (seasonal_content_prompt P (after_generation s rf rs re)) model = Inr rsc \<and>
        and_then (editing_prompt P (after_generation s rf rs re)) model = Inr early \<and>
        and_then (editing_prompt P
          (after_refinement (after_generation s rf rs re) rfr rsc early)) model = Inr red \<and>
        fs = (after_refinement (after_generation s rf rs re) rfr rsc early)
               \<lparr>editing_messages := Some [assistant red]\<rparr>)"
  (is "?lhs \<longleftrightarrow> ?rhs")
proof
  assume ?lhs
  then obtain c1 where c1: "superstep (create_graph P model)
      (next_tasks (create_graph P model) [START], s) = Inr c1"
    and l1: "pregel_loop 24 (create_graph P model) (fst c1) (snd c1) = Inr fs"
    by (auto simp: invoke_def recursion_limit_def pregel_loop_numeral [OF first_tasks_nonempty]
        and_then_eq_Inr)
  from c1 obtain rf rs re where
    g: "and_then (flagship_prompt P s) model = Inr rf"
      "and_then (seasonal_event_prompt P s) model = Inr rs"
      "and_then (evergreen_prompt P s) model = Inr re"
    and c1_eq: "c1 = (next_tasks (create_graph P model)
        [''flagship'', ''seasonal_event'', ''evergreen''], after_generation s rf rs re)"
    unfolding superstep_first by blast
  from l1 c1_eq obtain c2 where c2: "superstep (create_graph P model)
      (next_tasks (create_graph P model) [''flagship'', ''seasonal_event'', ''evergreen''],
       after_generation s rf rs re) = Inr c2"
    and l2: "pregel_loop 23 (create_graph P model) (fst c2) (snd c2) = Inr fs"
    by (auto simp: pregel_loop_numeral [OF second_tasks_nonempty] and_then_eq_Inr)
  from c2 obtain rfr rsc early where
    r: "and_then (flagship_reflection_prompt P (after_generation s rf rs re)) model = Inr rfr"
      "and_then (seasonal_content_prompt P (after_generation s rf rs re)) model = Inr rsc"
      "and_then (editing_prompt P (after_generation s rf rs re)) model = Inr early"
    and c2_eq: "c2 = (next_tasks (create_graph P model)
        [''flagship_reflection'', ''seasonal_content'', ''editing''],
        after_refinement (after_generation s rf rs re) rfr rsc early)"
    unfolding superstep_second by blast
  from l2 c2_eq obtain c3 where c3: "superstep (create_graph P model)
      (next_tasks (create_graph P model)
         [''flagship_reflection'', ''seasonal_content'', ''editing''],
       after_refinement (after_generation s rf rs re) rfr rsc early) = Inr c3"
    and l3: "pregel_loop 22 (create_graph P model) (fst c3) (snd c3) = Inr fs"
    by (auto simp: pregel_loop_numeral [OF third_tasks_nonempty] and_then_eq_Inr)
  from c3 obtain red where
    e: "and_then (editing_prompt P
          (after_refinement (after_generation s rf rs re) rfr rsc early)) model = Inr red"
    and c3_eq: "c3 = ([], (after_refinement (after_generation s rf rs re) rfr rsc early)
        \<lparr>editing_messages := Some [assistant red]\<rparr>)"
    unfolding superstep_third by blast
  from l3 c3_eq have "fs = (after_refinement (after_generation s rf rs re) rfr rsc early)
        \<lparr>editing_messages := Some [assistant red]\<rparr>"
    by simp
  with g r e show ?rhs by blast
next
  assume ?rhs
  then obtain rf rs re rfr rsc early red where
    g: "and_then (flagship_prompt P s) model = Inr rf"
      "and_then (seasonal_event_prompt P s) model = Inr rs"
      "and_then (evergreen_prompt P s) model = Inr re"
    and r: "and_then (flagship_reflection_prompt P (after_generation s rf rs re)) model = Inr rfr"
      "and_then (seasonal_content_prompt P (after_generation s rf rs re)) model = Inr rsc"
      "and_then (editing_prompt P (after_generation s rf rs re)) model = Inr early"
    and e: "and_then (editing_prompt P
          (after_refinement (after_generation s rf rs re) rfr rsc early)) model = Inr red"
    and fs: "fs = (after_refinement (after_generation s rf rs re) rfr rsc early)
               \<lparr>editing_messages := Some [assistant red]\<rparr>"
    by blast
  have s1: "superstep (create_graph P model) (next_tasks (create_graph P model) [START], s) =
      Inr (next_tasks (create_graph P model) [''flagship'', ''seasonal_event'', ''evergreen''],
           after_generation s rf rs re)"
    unfolding superstep_first using g by blast
  have s2: "superstep (create_graph P model)
      (next_tasks (create_graph P model) [''flagship'', ''seasonal_event'', ''evergreen''],
       after_generation s rf rs re) =
      Inr (next_tasks (create_graph P model)
             [''flagship_reflection'', ''seasonal_content'', ''editing''],
           after_refinement (after_generation s rf rs re) rfr rsc early)"
    unfolding superstep_second using r by blast
  have s3: "superstep (create_graph P model)
      (next_tasks (create_graph P model)
         [''flagship_reflection'', ''seasonal_content'', ''editing''],
       after_refinement (after_generation s rf rs re) rfr rsc early) = Inr ([], fs)"
    unfolding superstep_third using e fs by blast
  show ?lhs
    by (simp add: invoke_def recursion_limit_def pregel_loop_numeral [OF first_tasks_nonempty] s1
        pregel_loop_numeral [OF second_tasks_nonempty] s2
        pregel_loop_numeral [OF third_tasks_nonempty] s3)
qed


subsection \<open>C8: what a prompt is built from\<close>

text \<open>
  C8. Every task that references prior outputs (flagship_reflection, seasonal_content,
  editing) builds its prompt by joining the content strings of its upstream message list
  with the newline separator (the line feed character) and substituting that
  concatenation, together with the four positioning fields, into its fixed template; the
  three tasks with no upstream substitute the four positioning fields only. The joining
  and the substitution are stated with the specification's notions \<open>lines_joined\<close>, which
  writes the line feed out, and \<open>substituted\<close>; the prompts are the source's. The witness
  runs the theorem on a state whose lists hold two and three messages, so the separator
  shows in the prompts.
\<close>

theorem prompts_substitute_joined_upstream:
  assumes "core_value_provided s = Some cv" and "target_audience s = Some ta"
    and "persona s = Some pe" and "monetization s = Some mo"
  shows
    "flagship_prompt P s =
       substituted (FLAGSHIP_PROMPT P)
         [(''core_value_provided'', cv), (''target_audience'', ta),
          (''persona'', pe), (''monetization'', mo)] \<and>
     seasonal_event_prompt P s =
       substituted (SEASONAL_PROMPT P)
         [(''core_value_provided'', cv), (''target_audience'', ta),
          (''persona'', pe), (''monetization'', mo)] \<and>
     evergreen_prompt P s =
       substituted (EVERGREEN_PROMPT P)
         [(''core_value_provided'', cv), (''target_audience'', ta),
          (''persona'', pe), (''monetization'', mo)] \<and>
     flagship_reflection_prompt P s =
       substituted (FLAGSHIP_REFLECTION_PROMPT P)
         [(''core_value_provided'', cv), (''target_audience'', ta),
          (''persona'', pe), (''monetization'', mo),
          (''flagship_content'',
             lines_joined (map content (get_default (flagship_messages s) [])))] \<and>
     seasonal_content_prompt P s =
       substituted (SEASONAL_CONTENT_PROMPT P)
         [(''core_value_provided'', cv), (''target_audience'', ta),
          (''persona'', pe), (''monetization'', mo),
          (''seasonal_events'',
             lines_joined (map content (get_default (seasonal_event_messages s) [])))] \<and>
     editing_prompt P s =
       substituted (Edit_PROMPT P)
         [(''core_value_provided'', cv), (''target_audience'', ta),
          (''persona'', pe), (''monetization'', mo),
          (''flagship_content'',
             lines_joined (map content (get_default (flagship_reflection_messages s) []))),
          (''seasonal_content'',
             lines_joined (map content (get_default (seasonal_content_messages s) []))),
          (''evergreen_content'',
             lines_joined (map content (get_default (evergreen_messages s) [])))]"
  by (simp add: flagship_prompt_def seasonal_event_prompt_def evergreen_prompt_def
      flagship_reflection_prompt_def seasonal_content_prompt_def editing_prompt_def
      positioning_kwargs_present [OF assms] joined_content_lines Let_def
      format_template_substituted)

theorem prompts_substitute_joined_upstream_witness:
  "core_value_provided several_messages_state = Some ''v'' \<and>
   target_audience several_messages_state = Some ''t'' \<and>
   persona several_messages_state = Some ''p'' \<and>
   monetization several_messages_state = Some ''m'' \<and>
   flagship_prompt sample_prompts several_messages_state = Inr ''flagship v/t/p/m'' \<and>
   seasonal_event_prompt sample_prompts several_messages_state = Inr ''events v/t/p/m'' \<and>
   evergreen_prompt sample_prompts several_messages_state = Inr ''evergreen v/t/p/m'' \<and>
   flagship_reflection_prompt sample_prompts several_messages_state =
     Inr (''reflect v/t/p/m: a1'' @ CHR 0x0A # ''a2'') \<and>
   seasonal_content_prompt sample_prompts several_messages_state =
     Inr (''seasonal v/t/p/m: b1'' @ CHR 0x0A # ''b2'') \<and>
   editing_prompt sample_prompts several_messages_state =
     Inr (''edit v/t/p/m: d1'' @ CHR 0x0A # ''d2; e1'' @ CHR 0x0A # ''e2; c1'' @
          CHR 0x0A # ''c2'' @ CHR 0x0A # ''c3'')"
proof -
  have h: "core_value_provided several_messages_state = Some ''v''"
    "target_audience several_messages_state = Some ''t''"
    "persona several_messages_state = Some ''p''"
    "monetization several_messages_state = Some ''m''"
    by (simp_all add: several_messages_state_def)
  have m: "flagship_messages several_messages_state = Some [assistant ''a1'', assistant ''a2'']"
    "flagship_reflection_messages several_messages_state =
       Some [assistant ''d1'', assistant ''d2'']"
    "seasonal_event_messages several_messages_state =
       Some [assistant ''b1'', assistant ''b2'']"
    "seasonal_content_messages several_messages_state =
       Some [assistant ''e1'', assistant ''e2'']"
    "evergreen_messages several_messages_state =
       Some [assistant ''c1'', assistant ''c2'', assistant ''c3'']"
    by (simp_all add: several_messages_state_def)
  show ?thesis
    using prompts_substitute_joined_upstream [OF h, of sample_prompts]
    by (simp add: h m sample_prompts_def positioning_pieces_def substituted_def fill_def
        get_default_def lines_joined_def assistant_def)
qed


lemma joined_content_single: "joined_content (Some [assistant t]) = t"
  by (simp add: joined_content_def get_default_def assistant_def)

lemma editing_prompt_frame:
  "editing_prompt P (s\<lparr>flagship_messages := a, seasonal_event_messages := b\<rparr>) = editing_prompt P s"
  by (simp add: editing_prompt_def positioning_kwargs_def)

subsection \<open>C1: the editing prompt and the mock outputs\<close>

text \<open>
  C1, as amended. In every state that holds the five mock outputs \<^verbatim>\<open>flagship:A\<close>,
  \<^verbatim>\<open>seasonal_event:B\<close>, \<^verbatim>\<open>evergreen:C\<close>, \<^verbatim>\<open>flagship_reflection:D\<close> and
  \<^verbatim>\<open>seasonal_content:E\<close>, the prompt the editing task builds from a template that
  references its three upstream fields contains the texts D, E and C, and it is the same
  prompt whatever \<open>flagship_messages\<close> and \<open>seasonal_event_messages\<close> hold (any list, or no
  entry at all): the task reads neither. What the claim adds, that A and B occur nowhere
  else in the prompt, fails when a positioning field carries such a text, as the
  counterexample below shows.
\<close>

theorem editing_prompt_holds_refined_outputs:
  assumes "flagship_reflection_messages s = Some [assistant ''flagship_reflection:D'']"
    and "seasonal_content_messages s = Some [assistant ''seasonal_content:E'']"
    and "evergreen_messages s = Some [assistant ''evergreen:C'']"
    and "flagship_messages s = Some [assistant ''flagship:A'']"
    and "seasonal_event_messages s = Some [assistant ''seasonal_event:B'']"
    and "Field ''flagship_content'' \<in> set (Edit_PROMPT P)"
    and "Field ''seasonal_content'' \<in> set (Edit_PROMPT P)"
    and "Field ''evergreen_content'' \<in> set (Edit_PROMPT P)"
    and "editing_prompt P s = Inr prompt"
  shows "sublist ''flagship_reflection:D'' prompt \<and>
         sublist ''seasonal_content:E'' prompt \<and>
         sublist ''evergreen:C'' prompt \<and>
         editing_prompt P (s\<lparr>flagship_messages := a, seasonal_event_messages := b\<rparr>) =
           Inr prompt"
proof -
  from assms(9) obtain kw where
    kw: "positioning_kwargs s = Inr kw"
    and f: "format_template (Edit_PROMPT P)
        (kw @ [(''flagship_content'', ''flagship_reflection:D''),
               (''seasonal_content'', ''seasonal_content:E''),
               (''evergreen_content'', ''evergreen:C'')]) = Inr prompt"
    by (auto simp: editing_prompt_def and_then_eq_Inr assms(1-3) joined_content_single)
  from kw obtain cv ta pe mo where
    "kw = [(''core_value_provided'', cv), (''target_audience'', ta),
           (''persona'', pe), (''monetization'', mo)]"
    by (auto simp: positioning_kwargs_def and_then_eq_Inr)
  then have m:
    "map_of (kw @ [(''flagship_content'', ''flagship_reflection:D''),
               (''seasonal_content'', ''seasonal_content:E''),
               (''evergreen_content'', ''evergreen:C'')]) ''flagship_content'' =
       Some ''flagship_reflection:D''"
    "map_of (kw @ [(''flagship_content'', ''flagship_reflection:D''),
               (''seasonal_content'', ''seasonal_content:E''),
               (''evergreen_content'', ''evergreen:C'')]) ''seasonal_content'' =
       Some ''seasonal_content:E''"
    "map_of (kw @ [(''flagship_content'', ''flagship_reflection:D''),
               (''seasonal_content'', ''seasonal_content:E''),
               (''evergreen_content'', ''evergreen:C'')]) ''evergreen_content'' =
       Some ''evergreen:C''"
    by simp_all
  have "sublist ''flagship_reflection:D'' prompt"
    by (rule format_template_contains [OF f assms(6) m(1)])
  moreover have "sublist ''seasonal_content:E'' prompt"
    by (rule format_template_contains [OF f assms(7) m(2)])
  moreover have "sublist ''evergreen:C'' prompt"
    by (rule format_template_contains [OF f assms(8) m(3)])
  ultimately show ?thesis
    using assms(9) by (simp add: editing_prompt_frame)
qed

lemma sample_edit_fields:
  "Field ''flagship_content'' \<in> set (Edit_PROMPT sample_prompts)"
  "Field ''seasonal_content'' \<in> set (Edit_PROMPT sample_prompts)"
  "Field ''evergreen_content'' \<in> set (Edit_PROMPT sample_prompts)"
  by (simp_all add: sample_prompts_def positioning_pieces_def)

lemma mock_state_messages:
  "flagship_reflection_messages (mock_state t) = Some [assistant ''flagship_reflection:D'']"
  "seasonal_content_messages (mock_state t) = Some [assistant ''seasonal_content:E'']"
  "evergreen_messages (mock_state t) = Some [assistant ''evergreen:C'']"
  "flagship_messages (mock_state t) = Some [assistant ''flagship:A'']"
  "seasonal_event_messages (mock_state t) = Some [assistant ''seasonal_event:B'']"
  by (simp_all add: mock_state_def)

lemma mock_editing_prompt:
  "editing_prompt sample_prompts (mock_state t) =
     Inr (''edit v/t/'' @ t @ ''/m: flagship_reflection:D; seasonal_content:E; evergreen:C'')"
  by (simp add: editing_prompt_def positioning_kwargs_def mock_state_def sample_prompts_def
      positioning_pieces_def joined_content_single)

theorem editing_prompt_holds_refined_outputs_witness:
  "flagship_reflection_messages (mock_state ''p'') = Some [assistant ''flagship_reflection:D''] \<and>
   seasonal_content_messages (mock_state ''p'') = Some [assistant ''seasonal_content:E''] \<and>
   evergreen_messages (mock_state ''p'') = Some [assistant ''evergreen:C''] \<and>
   flagship_messages (mock_state ''p'') = Some [assistant ''flagship:A''] \<and>
   seasonal_event_messages (mock_state ''p'') = Some [assistant ''seasonal_event:B''] \<and>
   Field ''flagship_content'' \<in> set (Edit_PROMPT sample_prompts) \<and>
   Field ''seasonal_content'' \<in> set (Edit_PROMPT sample_prompts) \<and>
   Field ''evergreen_content'' \<in> set (Edit_PROMPT sample_prompts) \<and>
   editing_prompt sample_prompts (mock_state ''p'') =
     Inr ''edit v/t/p/m: flagship_reflection:D; seasonal_content:E; evergreen:C'' \<and>
   sublist ''flagship_reflection:D''
     ''edit v/t/p/m: flagship_reflection:D; seasonal_content:E; evergreen:C'' \<and>
   sublist ''seasonal_content:E''
     ''edit v/t/p/m: flagship_reflection:D; seasonal_content:E; evergreen:C'' \<and>
   sublist ''evergreen:C''
     ''edit v/t/p/m: flagship_reflection:D; seasonal_content:E; evergreen:C'' \<and>
   editing_prompt sample_prompts
     ((mock_state ''p'')\<lparr>flagship_messages := None, seasonal_event_messages := Some []\<rparr>) =
     Inr ''edit v/t/p/m: flagship_reflection:D; seasonal_content:E; evergreen:C''"
proof -
  have p: "editing_prompt sample_prompts (mock_state ''p'') =
     Inr ''edit v/t/p/m: flagship_reflection:D; seasonal_content:E; evergreen:C''"
    using mock_editing_prompt [of "''p''"] by simp
  show ?thesis
    using editing_prompt_holds_refined_outputs
      [OF mock_state_messages sample_edit_fields p, where a = None and b = "Some []"]
    by (simp add: mock_state_messages sample_edit_fields p)
qed

theorem editing_prompt_contains_positioning_text_counterexample:
  "flagship_reflection_messages (mock_state ''flagship:A'') =
     Some [assistant ''flagship_reflection:D''] \<and>
   seasonal_content_messages (mock_state ''flagship:A'') =
     Some [assistant ''seasonal_content:E''] \<and>
   evergreen_messages (mock_state ''flagship:A'') = Some [assistant ''evergreen:C''] \<and>
   flagship_messages (mock_state ''flagship:A'') = Some [assistant ''flagship:A''] \<and>
   seasonal_event_messages (mock_state ''flagship:A'') = Some [assistant ''seasonal_event:B''] \<and>
   editing_prompt sample_prompts (mock_state ''flagship:A'') =
     Inr ''edit v/t/flagship:A/m: flagship_reflection:D; seasonal_content:E; evergreen:C'' \<and>
   prefix ''flagship:A''
     (drop 9 ''edit v/t/flagship:A/m: flagship_reflection:D; seasonal_content:E; evergreen:C'') \<and>
   sublist ''flagship:A''
     ''edit v/t/flagship:A/m: flagship_reflection:D; seasonal_content:E; evergreen:C'' \<and>
   \<not> sublist ''flagship:A'' ''flagship_reflection:D'' \<and>
   \<not> sublist ''flagship:A'' ''seasonal_content:E'' \<and>
   \<not> sublist ''flagship:A'' ''evergreen:C''"
proof -
  have p: "editing_prompt sample_prompts (mock_state ''flagship:A'') =
     Inr ''edit v/t/flagship:A/m: flagship_reflection:D; seasonal_content:E; evergreen:C''"
    using mock_editing_prompt [of "''flagship:A''"] by simp
  have s: "sublist ''flagship:A''
     (''edit v/t/'' @ ''flagship:A'' @ ''/m: flagship_reflection:D; seasonal_content:E; evergreen:C'')"
    by (rule sublist_appendI)
  have n: "\<not> sublist ''flagship:A'' ''flagship_reflection:D''"
    "\<not> sublist ''flagship:A'' ''seasonal_content:E''"
    "\<not> sublist ''flagship:A'' ''evergreen:C''"
    by (simp_all add: sublist_Cons_right)
  show ?thesis
    using s by (simp add: mock_state_messages p n)
qed


lemma joined_content_absent_or_empty: "absent_or_empty entry \<Longrightarrow> joined_content entry = []"
  by (auto simp: absent_or_empty_def joined_content_def get_default_def)

subsection \<open>C10: missing or empty upstream outputs\<close>

text \<open>
  C10. Each downstream task reads its upstream output with a defaulting lookup: when the
  upstream message list is missing from the state or empty, the task does not fail on it.
  It formats its template with the empty string in place of the concatenated upstream
  text and goes on to the model call; whether the task succeeds is then up to the
  template and the model alone. The editing task does so for each of its three upstream
  lists separately.
\<close>

theorem missing_upstream_is_empty_text:
  assumes "core_value_provided s = Some cv" and "target_audience s = Some ta"
    and "persona s = Some pe" and "monetization s = Some mo"
  shows
    "(absent_or_empty (flagship_messages s) \<longrightarrow>
        flagship_reflection P model s =
          and_then (format_template (FLAGSHIP_REFLECTION_PROMPT P)
              [(''core_value_provided'', cv), (''target_audience'', ta),
               (''persona'', pe), (''monetization'', mo), (''flagship_content'', [])])
            (\<lambda>prompt. and_then (model prompt) (\<lambda>response.
               Inr (no_entries\<lparr>flagship_reflection_messages := Some [assistant response]\<rparr>)))) \<and>
     (absent_or_empty (seasonal_event_messages s) \<longrightarrow>
        seasonal_content P model s =
          and_then (format_template (SEASONAL_CONTENT_PROMPT P)
              [(''core_value_provided'', cv), (''target_audience'', ta),
               (''persona'', pe), (''monetization'', mo), (''seasonal_events'', [])])
            (\<lambda>prompt. and_then (model prompt) (\<lambda>response.
               Inr (no_entries\<lparr>seasonal_content_messages := Some [assistant response]\<rparr>)))) \<and>
     editing P model s =
       and_then (format_template (Edit_PROMPT P)
           [(''core_value_provided'', cv), (''target_audience'', ta),
            (''persona'', pe), (''monetization'', mo),
            (''flagship_content'',
               if absent_or_empty (flagship_reflection_messages s) then []
               else joined_content (flagship_reflection_messages s)),
            (''seasonal_content'',
               if absent_or_empty (seasonal_content_messages s) then []
               else joined_content (seasonal_content_messages s)),
            (''evergreen_content'',
               if absent_or_empty (evergreen_messages s) then []
               else joined_content (evergreen_messages s))])
         (\<lambda>prompt. and_then (model prompt) (\<lambda>response.
            Inr (no_entries\<lparr>editing_messages := Some [assistant response]\<rparr>)))"
  by (simp add: flagship_reflection_def flagship_reflection_prompt_def
      seasonal_content_def seasonal_content_prompt_def editing_def editing_prompt_def
      positioning_kwargs_present [OF assms] joined_content_absent_or_empty Let_def)

lemma sample_state_fields:
  "core_value_provided sample_state = Some ''v''"
  "target_audience sample_state = Some ''t''"
  "persona sample_state = Some ''p''"
  "monetization sample_state = Some ''m''"
  by (simp_all add: sample_state_def)

theorem missing_upstream_is_empty_text_witness:
  "core_value_provided (sample_state\<lparr>flagship_messages := None\<rparr>) = Some ''v'' \<and>
   target_audience (sample_state\<lparr>flagship_messages := None\<rparr>) = Some ''t'' \<and>
   persona (sample_state\<lparr>flagship_messages := None\<rparr>) = Some ''p'' \<and>
   monetization (sample_state\<lparr>flagship_messages := None\<rparr>) = Some ''m'' \<and>
   absent_or_empty (flagship_messages (sample_state\<lparr>flagship_messages := None\<rparr>)) \<and>
   absent_or_empty (seasonal_event_messages (sample_state\<lparr>flagship_messages := None\<rparr>)) \<and>
   flagship_reflection sample_prompts bracket_model (sample_state\<lparr>flagship_messages := None\<rparr>) =
     Inr (no_entries\<lparr>flagship_reflection_messages := Some [assistant ''<reflect v/t/p/m: >'']\<rparr>) \<and>
   seasonal_content sample_prompts bracket_model (sample_state\<lparr>flagship_messages := None\<rparr>) =
     Inr (no_entries\<lparr>seasonal_content_messages := Some [assistant ''<seasonal v/t/p/m: >'']\<rparr>) \<and>
   editing sample_prompts bracket_model (sample_state\<lparr>flagship_messages := None\<rparr>) =
     Inr (no_entries\<lparr>editing_messages := Some [assistant ''<edit v/t/p/m: ; ; >'']\<rparr>)"
proof -
  have h: "core_value_provided (sample_state\<lparr>flagship_messages := None\<rparr>) = Some ''v''"
    "target_audience (sample_state\<lparr>flagship_messages := None\<rparr>) = Some ''t''"
    "persona (sample_state\<lparr>flagship_messages := None\<rparr>) = Some ''p''"
    "monetization (sample_state\<lparr>flagship_messages := None\<rparr>) = Some ''m''"
    by (simp_all add: sample_state_def)
  have a: "absent_or_empty (flagship_messages (sample_state\<lparr>flagship_messages := None\<rparr>))"
    "absent_or_empty (seasonal_event_messages (sample_state\<lparr>flagship_messages := None\<rparr>))"
    "absent_or_empty (flagship_reflection_messages (sample_state\<lparr>flagship_messages := None\<rparr>))"
    "absent_or_empty (seasonal_content_messages (sample_state\<lparr>flagship_messages := None\<rparr>))"
    "absent_or_empty (evergreen_messages (sample_state\<lparr>flagship_messages := None\<rparr>))"
    by (simp_all add: sample_state_def absent_or_empty_def)
  show ?thesis
    using missing_upstream_is_empty_text [OF h, of sample_prompts bracket_model]
    by (simp add: h sample_state_def absent_or_empty_def sample_prompts_def
        positioning_pieces_def bracket_model_def)
qed

subsection \<open>C6: an empty form field\<close>

text \<open>
  C6. If any one of the four form fields is empty at submission, the form handler shows
  its error and returns no input record, and \<open>main\<close> does not call
  \<^verbatim>\<open>generate_suggestions\<close>: no task runs and no state, partial or complete, comes to
  exist. (Without an API key the form is not even reached; the page then shows the
  request for the key.)
\<close>

theorem empty_field_blocks_the_run:
  assumes "cv = [] \<or> ta = [] \<or> pe = [] \<or> mo = []"
  shows
    "create_input_form True cv ta pe mo =
       (None, [StError ''Please fill in all fields before generating suggestions.'']) \<and>
     fst (main P ChatGroq key_text True cv ta pe mo) = NotRun \<and>
     snd (main P ChatGroq key_text True cv ta pe mo) =
       (if key_text = [] then [StInfo ''Please add your Groq API key to continue.'']
        else [StError ''Please fill in all fields before generating suggestions.''])"
  using assms by (auto simp: create_input_form_def main_def get_api_key_def)

theorem empty_field_blocks_the_run_witness:
  "(''v'' = [] \<or> ''t'' = [] \<or> [] = ([] :: string) \<or> ''m'' = []) \<and>
   create_input_form True ''v'' ''t'' [] ''m'' =
     (None, [StError ''Please fill in all fields before generating suggestions.'']) \<and>
   main sample_prompts (\<lambda>key. bracket_model) ''gsk'' True ''v'' ''t'' [] ''m'' =
     (NotRun, [StError ''Please fill in all fields before generating suggestions.''])"
proof -
  have h: "''v'' = [] \<or> ''t'' = [] \<or> [] = ([] :: string) \<or> ''m'' = []" by simp
  show ?thesis
    using empty_field_blocks_the_run [OF h, of sample_prompts "\<lambda>key. bracket_model" "''gsk''"]
    by (simp add: prod_eq_iff)
qed


lemma create_initial_state_sample: "create_initial_state sample_input = Inr sample_state"
  by (simp add: create_initial_state_def sample_input_def sample_state_def)

lemma sample_run:
  "invoke (create_graph sample_prompts bracket_model) sample_state = Inr sample_final"
  unfolding invoke_create_graph
  by (simp add: flagship_prompt_def seasonal_event_prompt_def evergreen_prompt_def
      flagship_reflection_prompt_def seasonal_content_prompt_def editing_prompt_def
      positioning_kwargs_def after_generation_def after_refinement_def joined_content_single
      sample_state_def sample_prompts_def positioning_pieces_def bracket_model_def
      sample_final_def)


lemma create_initial_state_eq_Inr:
  "create_initial_state input_data = Inr s0 \<longleftrightarrow>
     (\<exists>cv ta pe mo.
        input_data ''core_value'' = Some cv \<and> input_data ''target_audience'' = Some ta \<and>
        input_data ''persona'' = Some pe \<and> input_data ''monetization'' = Some mo \<and>
        s0 = \<lparr>flagship_messages = Some [], flagship_reflection_messages = Some [],
              seasonal_event_messages = Some [], seasonal_content_messages = Some [],
              evergreen_messages = Some [], editing_messages = Some [],
              core_value_provided = Some cv, target_audience = Some ta,
              monetization = Some mo, persona = Some pe\<rparr>)"
  by (auto simp: create_initial_state_def and_then_eq_Inr item_def split: option.splits)

subsection \<open>C3: the final state of a completed run\<close>

text \<open>
  C3. For every input that supplies the four positioning fields (non-empty ones in
  particular), when the run completes, the final state holds exactly six task outputs,
  one under each key of the task table, next to the four positioning fields it was
  started with; and each output is the one message its own task wrote: the model's
  answer to that task's prompt. (The prompt is stated on the final state: the entries a
  task reads have the values they had when the task ran.)
\<close>

theorem final_state_holds_six_task_outputs:
  assumes "input_data ''core_value'' = Some cv"
    and "input_data ''target_audience'' = Some ta"
    and "input_data ''persona'' = Some pe"
    and "input_data ''monetization'' = Some mo"
    and "and_then (create_initial_state input_data) (invoke (create_graph P model)) =
           Inr final_state"
  shows
    "\<exists>rf rfr rs rsc re red.
       final_state =
         \<lparr>flagship_messages = Some [assistant rf],
          flagship_reflection_messages = Some [assistant rfr],
          seasonal_event_messages = Some [assistant rs],
          seasonal_content_messages = Some [assistant rsc],
          evergreen_messages = Some [assistant re],
          editing_messages = Some [assistant red],
          core_value_provided = Some cv, target_audience = Some ta,
          monetization = Some mo, persona = Some pe\<rparr> \<and>
       and_then (flagship_prompt P final_state) model = Inr rf \<and>
       and_then (flagship_reflection_prompt P final_state) model = Inr rfr \<and>
       and_then (seasonal_event_prompt P final_state) model = Inr rs \<and>
       and_then (seasonal_content_prompt P final_state) model = Inr rsc \<and>
       and_then (evergreen_prompt P final_state) model = Inr re \<and>
       and_then (editing_prompt P final_state) model = Inr red \<and>
       keys final_state = message_keys @ positioning_keys"
proof -
  from assms(5) obtain s0 where
    init: "create_initial_state input_data = Inr s0"
    and run: "invoke (create_graph P model) s0 = Inr final_state"
    by (auto simp: and_then_eq_Inr)
  from init assms(1-4) have s0:
    "s0 = \<lparr>flagship_messages = Some [], flagship_reflection_messages = Some [],
           seasonal_event_messages = Some [], seasonal_content_messages = Some [],
           evergreen_messages = Some [], editing_messages = Some [],
           core_value_provided = Some cv, target_audience = Some ta,
           monetization = Some mo, persona = Some pe\<rparr>"
    by (auto simp: create_initial_state_eq_Inr)
  from run obtain rf rs re rfr rsc early red where
    g: "and_then (flagship_prompt P s0) model = Inr rf"
      "and_then (seasonal_event_prompt P s0) model = Inr rs"
      "and_then (evergreen_prompt P s0) model = Inr re"
    and r: "and_then (flagship_reflection_prompt P (after_generation s0 rf rs re)) model = Inr rfr"
      "and_then (seasonal_content_prompt P (after_generation s0 rf rs re)) model = Inr rsc"
    and e: "and_then (editing_prompt P
          (after_refinement (after_generation s0 rf rs re) rfr rsc early)) model = Inr red"
    and fs: "final_state = (after_refinement (after_generation s0 rf rs re) rfr rsc early)
               \<lparr>editing_messages := Some [assistant red]\<rparr>"
    unfolding invoke_create_graph by blast
  have final: "final_state =
         \<lparr>flagship_messages = Some [assistant rf],
          flagship_reflection_messages = Some [assistant rfr],
          seasonal_event_messages = Some [assistant rs],
          seasonal_content_messages = Some [assistant rsc],
          evergreen_messages = Some [assistant re],
          editing_messages = Some [assistant red],
          core_value_provided = Some cv, target_audience = Some ta,
          monetization = Some mo, persona = Some pe\<rparr>"
    by (simp add: fs s0 after_generation_def after_refinement_def)
  have p1: "flagship_prompt P final_state = flagship_prompt P s0"
    "seasonal_event_prompt P final_state = seasonal_event_prompt P s0"
    "evergreen_prompt P final_state = evergreen_prompt P s0"
    by (simp_all add: final s0 flagship_prompt_def seasonal_event_prompt_def
        evergreen_prompt_def positioning_kwargs_def)
  have p2: "flagship_reflection_prompt P final_state =
      flagship_reflection_prompt P (after_generation s0 rf rs re)"
    "seasonal_content_prompt P final_state =
      seasonal_content_prompt P (after_generation s0 rf rs re)"
    by (simp_all add: final s0 flagship_reflection_prompt_def seasonal_content_prompt_def
        positioning_kwargs_def after_generation_def)
  have p3: "editing_prompt P final_state =
      editing_prompt P (after_refinement (after_generation s0 rf rs re) rfr rsc early)"
    by (simp add: final s0 editing_prompt_def positioning_kwargs_def after_generation_def
        after_refinement_def)
  have k: "keys final_state = message_keys @ positioning_keys"
    by (simp add: final keys_def message_keys_def positioning_keys_def)
  from final g r e k show ?thesis
    unfolding p1 [symmetric] p2 [symmetric] p3 [symmetric] by blast
qed

lemma sample_input_keys:
  "sample_input ''core_value'' = Some ''v''"
  "sample_input ''target_audience'' = Some ''t''"
  "sample_input ''persona'' = Some ''p''"
  "sample_input ''monetization'' = Some ''m''"
  by (simp_all add: sample_input_def)

theorem final_state_holds_six_task_outputs_witness:
  "sample_input ''core_value'' = Some ''v'' \<and>
   sample_input ''target_audience'' = Some ''t'' \<and>
   sample_input ''persona'' = Some ''p'' \<and>
   sample_input ''monetization'' = Some ''m'' \<and>
   and_then (create_initial_state sample_input)
     (invoke (create_graph sample_prompts bracket_model)) = Inr sample_final \<and>
   keys sample_final = message_keys @ positioning_keys \<and>
   (\<exists>red. editing_messages sample_final = Some [assistant red] \<and>
      and_then (editing_prompt sample_prompts sample_final) bracket_model = Inr red)"
proof -
  have run: "and_then (create_initial_state sample_input)
     (invoke (create_graph sample_prompts bracket_model)) = Inr sample_final"
    by (simp add: create_initial_state_sample sample_run)
  from final_state_holds_six_task_outputs [OF sample_input_keys run]
  obtain rf rfr rs rsc re red where
    fs: "sample_final =
         \<lparr>flagship_messages = Some [assistant rf],
          flagship_reflection_messages = Some [assistant rfr],
          seasonal_event_messages = Some [assistant rs],
          seasonal_content_messages = Some [assistant rsc],
          evergreen_messages = Some [assistant re],
          editing_messages = Some [assistant red],
          core_value_provided = Some ''v'', target_audience = Some ''t'',
          monetization = Some ''m'', persona = Some ''p''\<rparr>"
    and ed: "and_then (editing_prompt sample_prompts sample_final) bracket_model = Inr red"
    and k: "keys sample_final = message_keys @ positioning_keys"
    by blast
  have "editing_messages sample_final = Some [assistant red]"
    by (subst fs) simp
  with ed have "\<exists>red. editing_messages sample_final = Some [assistant red] \<and>
      and_then (editing_prompt sample_prompts sample_final) bracket_model = Inr red"
    by blast
  note this k
  with run show ?thesis by (simp add: sample_input_keys)
qed


lemma keys_single_entry:
  "keys (no_entries\<lparr>flagship_messages := Some a\<rparr>) = [''flagship_messages'']"
  "keys (no_entries\<lparr>flagship_reflection_messages := Some a\<rparr>) = [''flagship_reflection_messages'']"
  "keys (no_entries\<lparr>seasonal_event_messages := Some a\<rparr>) = [''seasonal_event_messages'']"
  "keys (no_entries\<lparr>seasonal_content_messages := Some a\<rparr>) = [''seasonal_content_messages'']"
  "keys (no_entries\<lparr>evergreen_messages := Some a\<rparr>) = [''evergreen_messages'']"
  "keys (no_entries\<lparr>editing_messages := Some a\<rparr>) = [''editing_messages'']"
  by (simp_all add: keys_def no_entries_def)

lemma node_writes_one_message_key:
  "\<forall>t \<in> set (nodes (create_graph P model)). \<forall>s w.
     snd t s = Inr w \<longrightarrow> (\<exists>k \<in> set message_keys. keys w = [k])"
  by (auto simp: create_graph_def flagship_eq_Inr flagship_reflection_eq_Inr
      seasonal_event_eq_Inr seasonal_content_eq_Inr evergreen_eq_Inr editing_eq_Inr
      keys_single_entry message_keys_def)

lemma message_keys_not_positioning: "set message_keys \<inter> set positioning_keys = {}"
  by (simp add: message_keys_def positioning_keys_def)

subsection \<open>C7: the positioning fields are never written\<close>

text \<open>
  C7. The four positioning fields are immutable for the run's duration: whatever state a
  node of the graph runs on, the dict it returns holds none of the four positioning keys;
  and in the final state of every completed run each of the four fields is the value the
  input supplied.
\<close>

theorem positioning_fields_are_never_written:
  "(\<forall>t \<in> set (nodes (create_graph P model)). \<forall>s w.
      snd t s = Inr w \<longrightarrow> set (keys w) \<inter> set positioning_keys = {}) \<and>
   (create_initial_state input_data = Inr s0 \<and>
    invoke (create_graph P model) s0 = Inr final_state \<longrightarrow>
      core_value_provided final_state = input_data ''core_value'' \<and>
      target_audience final_state = input_data ''target_audience'' \<and>
      persona final_state = input_data ''persona'' \<and>
      monetization final_state = input_data ''monetization'')"
proof (intro conjI ballI allI impI)
  fix t s w
  assume "t \<in> set (nodes (create_graph P model))" and "snd t s = Inr w"
  then obtain k where "k \<in> set message_keys" and "keys w = [k]"
    using node_writes_one_message_key [of P model] by blast
  then show "set (keys w) \<inter> set positioning_keys = {}"
    using message_keys_not_positioning by auto
next
  assume a: "create_initial_state input_data = Inr s0 \<and>
    invoke (create_graph P model) s0 = Inr final_state"
  then obtain cv ta pe mo where
    i: "input_data ''core_value'' = Some cv" "input_data ''target_audience'' = Some ta"
      "input_data ''persona'' = Some pe" "input_data ''monetization'' = Some mo"
    and s0: "core_value_provided s0 = Some cv" "target_audience s0 = Some ta"
      "persona s0 = Some pe" "monetization s0 = Some mo"
    by (auto simp: create_initial_state_eq_Inr)
  from a obtain rf rs re rfr rsc early red where
    "final_state = (after_refinement (after_generation s0 rf rs re) rfr rsc early)
               \<lparr>editing_messages := Some [assistant red]\<rparr>"
    unfolding invoke_create_graph by blast
  then have f: "core_value_provided final_state = core_value_provided s0"
    "target_audience final_state = target_audience s0"
    "persona final_state = persona s0"
    "monetization final_state = monetization s0"
    by (simp_all add: after_generation_def after_refinement_def)
  show "core_value_provided final_state = input_data ''core_value''"
    by (simp add: f s0 i)
  show "target_audience final_state = input_data ''target_audience''"
    by (simp add: f s0 i)
  show "persona final_state = input_data ''persona''"
    by (simp add: f s0 i)
  show "monetization final_state = input_data ''monetization''"
    by (simp add: f s0 i)
qed

lemma editing_sample_final:
  "editing sample_prompts bracket_model sample_final =
     Inr (no_entries\<lparr>editing_messages := editing_messages sample_final\<rparr>)"
  by (simp add: editing_def editing_prompt_def positioning_kwargs_def joined_content_single
      sample_final_def sample_prompts_def positioning_pieces_def bracket_model_def)

theorem positioning_fields_are_never_written_witness:
  "(''editing'', editing sample_prompts bracket_model) \<in>
     set (nodes (create_graph sample_prompts bracket_model)) \<and>
   editing sample_prompts bracket_model sample_final =
     Inr (no_entries\<lparr>editing_messages := editing_messages sample_final\<rparr>) \<and>
   set (keys (no_entries\<lparr>editing_messages := editing_messages sample_final\<rparr>)) \<inter>
     set positioning_keys = {} \<and>
   create_initial_state sample_input = Inr sample_state \<and>
   invoke (create_graph sample_prompts bracket_model) sample_state = Inr sample_final \<and>
   core_value_provided sample_final = Some ''v'' \<and>
   target_audience sample_final = Some ''t'' \<and>
   persona sample_final = Some ''p'' \<and>
   monetization sample_final = Some ''m''"
proof -
  note t = positioning_fields_are_never_written
    [of sample_prompts bracket_model sample_input sample_state sample_final]
  have n: "(''editing'', editing sample_prompts bracket_model) \<in>
     set (nodes (create_graph sample_prompts bracket_model))"
    by (simp add: create_graph_def)
  from t n editing_sample_final
  have w: "set (keys (no_entries\<lparr>editing_messages := editing_messages sample_final\<rparr>)) \<inter>
     set positioning_keys = {}"
    by (metis snd_conv)
  from t create_initial_state_sample sample_run
  have f: "core_value_provided sample_final = sample_input ''core_value''"
    "target_audience sample_final = sample_input ''target_audience''"
    "persona sample_final = sample_input ''persona''"
    "monetization sample_final = sample_input ''monetization''"
    by blast+
  show ?thesis
    using n editing_sample_final w create_initial_state_sample sample_run f
    by (simp add: sample_input_keys)
qed

lemma add_section_section_of:
  "add_section header entry all_messages = all_messages @ section_of header entry"
  by (simp add: add_section_def section_of_def absent_or_empty_def get_default_def
      split: option.splits)

subsection \<open>C9: the list handed to the presentation layer\<close>

text \<open>
  C9. The message list built from a final state is the concatenation, in the fixed order
  Flagship, Flagship analysis, Seasonal events, Seasonal content, Evergreen, Summary, of
  the six sections, where a section is its header message followed by the task's
  messages when the task's output is non-empty and nothing at all (no header either) when
  it is empty or missing; and that list is what \<^verbatim>\<open>generate_suggestions\<close> returns for
  every run that completes.
\<close>

theorem suggestions_are_the_six_sections_in_order:
  "collect_messages final_state =
     section_of ''## Flagship Content Ideas'' (flagship_messages final_state) @
     section_of ''## Top Flagship Content Analysis'' (flagship_reflection_messages final_state) @
     section_of ''## Seasonal Events'' (seasonal_event_messages final_state) @
     section_of ''## Seasonal Content Ideas'' (seasonal_content_messages final_state) @
     section_of ''## Evergreen Content Ideas'' (evergreen_messages final_state) @
     section_of ''## Content Strategy Summary'' (editing_messages final_state) \<and>
   (create_initial_state input_data = Inr s0 \<and>
    invoke (create_graph P (ChatGroq api_key)) s0 = Inr final_state \<longrightarrow>
      fst (generate_suggestions P ChatGroq api_key input_data) =
        Some (collect_messages final_state))"
  by (simp add: collect_messages_def add_section_section_of generate_suggestions_def Let_def)

theorem suggestions_are_the_six_sections_in_order_witness:
  "create_initial_state sample_input = Inr sample_state \<and>
   invoke (create_graph sample_prompts ((\<lambda>key. bracket_model) ''gsk'')) sample_state =
     Inr sample_final \<and>
   fst (generate_suggestions sample_prompts (\<lambda>key. bracket_model) ''gsk'' sample_input) =
     Some
      [assistant ''## Flagship Content Ideas'',
       assistant ''<flagship v/t/p/m>'',
       assistant ''## Top Flagship Content Analysis'',
       assistant ''<reflect v/t/p/m: <flagship v/t/p/m>>'',
       assistant ''## Seasonal Events'',
       assistant ''<events v/t/p/m>'',
       assistant ''## Seasonal Content Ideas'',
       assistant ''<seasonal v/t/p/m: <events v/t/p/m>>'',
       assistant ''## Evergreen Content Ideas'',
       assistant ''<evergreen v/t/p/m>'',
       assistant ''## Content Strategy Summary'',
       assistant
         (''<edit v/t/p/m: <reflect v/t/p/m: <flagship v/t/p/m>>; '' @
          ''<seasonal v/t/p/m: <events v/t/p/m>>; <evergreen v/t/p/m>>'')] \<and>
   collect_messages (sample_final\<lparr>seasonal_event_messages := Some [],
       flagship_reflection_messages := None\<rparr>) =
      [assistant ''## Flagship Content Ideas'',
       assistant ''<flagship v/t/p/m>'',
       assistant ''## Seasonal Content Ideas'',
       assistant ''<seasonal v/t/p/m: <events v/t/p/m>>'',
       assistant ''## Evergreen Content Ideas'',
       assistant ''<evergreen v/t/p/m>'',
       assistant ''## Content Strategy Summary'',
       assistant
         (''<edit v/t/p/m: <reflect v/t/p/m: <flagship v/t/p/m>>; '' @
          ''<seasonal v/t/p/m: <events v/t/p/m>>; <evergreen v/t/p/m>>'')]"
proof -
  have run: "invoke (create_graph sample_prompts ((\<lambda>key. bracket_model) ''gsk'')) sample_state =
     Inr sample_final"
    by (simp add: sample_run)
  note t = suggestions_are_the_six_sections_in_order
    [of sample_final sample_input sample_state sample_prompts "\<lambda>key. bracket_model" "''gsk''"]
  note u = suggestions_are_the_six_sections_in_order
    [of "sample_final\<lparr>seasonal_event_messages := Some [],
       flagship_reflection_messages := None\<rparr>", THEN conjunct1]
  from t create_initial_state_sample run
  have g: "fst (generate_suggestions sample_prompts (\<lambda>key. bracket_model) ''gsk'' sample_input) =
    Some (collect_messages sample_final)"
    by blast
  from t have c: "collect_messages sample_final =
     section_of ''## Flagship Content Ideas'' (flagship_messages sample_final) @
     section_of ''## Top Flagship Content Analysis'' (flagship_reflection_messages sample_final) @
     section_of ''## Seasonal Events'' (seasonal_event_messages sample_final) @
     section_of ''## Seasonal Content Ideas'' (seasonal_content_messages sample_final) @
     section_of ''## Evergreen Content Ideas'' (evergreen_messages sample_final) @
     section_of ''## Content Strategy Summary'' (editing_messages sample_final)"
    by blast
  have s1: "collect_messages sample_final =
      [assistant ''## Flagship Content Ideas'',
       assistant ''<flagship v/t/p/m>'',
       assistant ''## Top Flagship Content Analysis'',
       assistant ''<reflect v/t/p/m: <flagship v/t/p/m>>'',
       assistant ''## Seasonal Events'',
       assistant ''<events v/t/p/m>'',
       assistant ''## Seasonal Content Ideas'',
       assistant ''<seasonal v/t/p/m: <events v/t/p/m>>'',
       assistant ''## Evergreen Content Ideas'',
       assistant ''<evergreen v/t/p/m>'',
       assistant ''## Content Strategy Summary'',
       assistant
         (''<edit v/t/p/m: <reflect v/t/p/m: <flagship v/t/p/m>>; '' @
          ''<seasonal v/t/p/m: <events v/t/p/m>>; <evergreen v/t/p/m>>'')]"
    by (subst c) (simp add: section_of_def absent_or_empty_def get_default_def sample_final_def)
  have s2: "collect_messages (sample_final\<lparr>seasonal_event_messages := Some [],
       flagship_reflection_messages := None\<rparr>) =
      [assistant ''## Flagship Content Ideas'',
       assistant ''<flagship v/t/p/m>'',
       assistant ''## Seasonal Content Ideas'',
       assistant ''<seasonal v/t/p/m: <events v/t/p/m>>'',
       assistant ''## Evergreen Content Ideas'',
       assistant ''<evergreen v/t/p/m>'',
       assistant ''## Content Strategy Summary'',
       assistant
         (''<edit v/t/p/m: <reflect v/t/p/m: <flagship v/t/p/m>>; '' @
          ''<seasonal v/t/p/m: <events v/t/p/m>>; <evergreen v/t/p/m>>'')]"
    by (subst u) (simp add: section_of_def absent_or_empty_def get_default_def sample_final_def)
  from create_initial_state_sample run g s1 s2 show ?thesis
    by (simp only: simp_thms)
qed


lemma run_tasks_fails:
  "t \<in> set ts \<Longrightarrow> snd t s = Inl e \<Longrightarrow> \<exists>e'. run_tasks ts s = Inl e'"
proof (induction ts)
  case Nil
  then show ?case by simp
next
  case (Cons u us)
  show ?case
  proof (cases "snd u s")
    case (Inl a)
    then show ?thesis by simp
  next
    case (Inr w)
    with Cons.prems have "t \<in> set us" by auto
    with Cons.IH Cons.prems(2) obtain e' where "run_tasks us s = Inl e'" by blast
    with Inr show ?thesis by simp
  qed
qed

lemma superstep_fails:
  "t \<in> set ts \<Longrightarrow> snd t s = Inl e \<Longrightarrow> \<exists>e'. superstep g (ts, s) = Inl e'"
  using run_tasks_fails [of t ts s e] by (auto simp: superstep_def)

lemma supersteps_failure:
  "(tasks, s) \<in> set (supersteps fuel g ts s0) \<Longrightarrow> t \<in> set tasks \<Longrightarrow> snd t s = Inl e \<Longrightarrow>
   \<exists>e'. pregel_loop fuel g ts s0 = Inl e'"
proof (induction fuel g ts s0 rule: supersteps.induct)
  case (1 fuel g state)
  then show ?case by simp
next
  case (2 g u us state)
  then show ?case by simp
next
  case (3 fuel g u us state)
  show ?case
  proof (cases "superstep g (u # us, state)")
    case (Inl a)
    then show ?thesis by simp
  next
    case (Inr c)
    show ?thesis
    proof (cases "(tasks, s) = (u # us, state)")
      case True
      with "3.prems" superstep_fails [of t "u # us" state e g] Inr show ?thesis by auto
    next
      case False
      with "3.prems" Inr have "(tasks, s) \<in> set (supersteps fuel g (fst c) (snd c))"
        by auto
      from "3.IH" [OF Inr this "3.prems"(2,3)] Inr show ?thesis by simp
    qed
  qed
qed

lemma next_tasks_nodes: "set (next_tasks g finished) \<subseteq> set (nodes g)"
  by (auto simp: next_tasks_def)

lemma superstep_tasks_nodes: "superstep g c = Inr c' \<Longrightarrow> set (fst c') \<subseteq> set (nodes g)"
  by (auto simp: superstep_def and_then_eq_Inr next_tasks_def)

lemma supersteps_tasks_nodes:
  "(tasks, s) \<in> set (supersteps fuel g ts s0) \<Longrightarrow> set ts \<subseteq> set (nodes g) \<Longrightarrow>
   set tasks \<subseteq> set (nodes g)"
proof (induction fuel g ts s0 rule: supersteps.induct)
  case (1 fuel g state)
  then show ?case by simp
next
  case (2 g u us state)
  then show ?case by simp
next
  case (3 fuel g u us state)
  show ?case
  proof (cases "superstep g (u # us, state)")
    case (Inl a)
    with "3.prems" show ?thesis by auto
  next
    case (Inr c)
    show ?thesis
    proof (cases "(tasks, s) = (u # us, state)")
      case True
      with "3.prems" show ?thesis by simp
    next
      case False
      with "3.prems" Inr have m: "(tasks, s) \<in> set (supersteps fuel g (fst c) (snd c))"
        by auto
      from "3.IH" [OF Inr m superstep_tasks_nodes [OF Inr]] show ?thesis .
    qed
  qed
qed

lemma failed_model_call_fails_node:
  "\<forall>t \<in> set (nodes (create_graph P model)). \<forall>build \<in> set (prompt_builders P).
     fst build = fst t \<longrightarrow>
     (\<forall>s prompt e. snd build s = Inr prompt \<longrightarrow> model prompt = Inl e \<longrightarrow> snd t s = Inl e)"
  by (simp add: create_graph_def prompt_builders_def flagship_def flagship_reflection_def
      seasonal_event_def seasonal_content_def evergreen_def editing_def)

subsection \<open>C5: a failed model call\<close>

text \<open>
  C5. If the model call of any task fails, in whichever superstep of the run the task is
  due, the caller receives no result at all: \<^verbatim>\<open>generate_suggestions\<close> shows the error
  and returns \<open>None\<close>, never a partial list of messages. The failing call is named by the
  superstep, the task in it, and the prompt that task's builder makes from the state the
  superstep reads.
\<close>

theorem failed_model_call_gives_no_result:
  assumes "create_initial_state input_data = Inr s0"
    and "(tasks, s) \<in> set (supersteps recursion_limit (create_graph P (ChatGroq api_key))
           (next_tasks (create_graph P (ChatGroq api_key)) [START]) s0)"
    and "(name, task) \<in> set tasks"
    and "(name, build) \<in> set (prompt_builders P)"
    and "build s = Inr prompt"
    and "ChatGroq api_key prompt = Inl e"
  shows "\<exists>e'. generate_suggestions P ChatGroq api_key input_data =
           (None, [StError (''An error occurred while generating suggestions: '' @
                     str_of_error e')])"
proof -
  have "set tasks \<subseteq> set (nodes (create_graph P (ChatGroq api_key)))"
    by (rule supersteps_tasks_nodes [OF assms(2) next_tasks_nodes])
  with assms(3) have "(name, task) \<in> set (nodes (create_graph P (ChatGroq api_key)))"
    by blast
  with failed_model_call_fails_node [of P "ChatGroq api_key"] assms(4,5,6)
  have "task s = Inl e" by fastforce
  then have "snd (name, task) s = Inl e" by simp
  from supersteps_failure [OF assms(2,3) this] obtain e' where
    "invoke (create_graph P (ChatGroq api_key)) s0 = Inl e'"
    by (auto simp: invoke_def)
  then show ?thesis
    by (auto simp: generate_suggestions_def assms(1))
qed


lemma supersteps_numeral:
  "tasks \<noteq> [] \<Longrightarrow>
   supersteps (numeral k) g tasks s =
     (tasks, s) #
     (case superstep g (tasks, s) of
        Inl e \<Rightarrow> []
      | Inr c \<Rightarrow> supersteps (pred_numeral k) g (fst c) (snd c))"
  by (cases tasks) (simp_all add: numeral_eq_Suc)

lemma sample_first_superstep:
  "superstep (create_graph sample_prompts no_reflection_model)
     (next_tasks (create_graph sample_prompts no_reflection_model) [START], sample_state) =
   Inr (next_tasks (create_graph sample_prompts no_reflection_model)
          [''flagship'', ''seasonal_event'', ''evergreen''],
        after_generation sample_state ''<flagship v/t/p/m>'' ''<events v/t/p/m>''
          ''<evergreen v/t/p/m>'')"
  unfolding superstep_first
  by (simp add: flagship_prompt_def seasonal_event_prompt_def evergreen_prompt_def
      positioning_kwargs_def sample_state_def sample_prompts_def positioning_pieces_def
      no_reflection_model_def)

lemma sample_reflection_prompt:
  "flagship_reflection_prompt sample_prompts
     (after_generation sample_state ''<flagship v/t/p/m>'' ''<events v/t/p/m>''
        ''<evergreen v/t/p/m>'') =
   Inr ''reflect v/t/p/m: <flagship v/t/p/m>''"
  by (simp add: flagship_reflection_prompt_def positioning_kwargs_def joined_content_single
      after_generation_def sample_state_def sample_prompts_def positioning_pieces_def)

theorem failed_model_call_gives_no_result_witness:
  "create_initial_state sample_input = Inr sample_state \<and>
   (next_tasks (create_graph sample_prompts ((\<lambda>key. no_reflection_model) ''gsk''))
      [''flagship'', ''seasonal_event'', ''evergreen''],
    after_generation sample_state ''<flagship v/t/p/m>'' ''<events v/t/p/m>''
      ''<evergreen v/t/p/m>'')
     \<in> set (supersteps recursion_limit
          (create_graph sample_prompts ((\<lambda>key. no_reflection_model) ''gsk''))
          (next_tasks (create_graph sample_prompts ((\<lambda>key. no_reflection_model) ''gsk''))
             [START])
          sample_state) \<and>
   (''flagship_reflection'',
    flagship_reflection sample_prompts ((\<lambda>key. no_reflection_model) ''gsk''))
     \<in> set (next_tasks (create_graph sample_prompts ((\<lambda>key. no_reflection_model) ''gsk''))
          [''flagship'', ''seasonal_event'', ''evergreen'']) \<and>
   (''flagship_reflection'', flagship_reflection_prompt sample_prompts)
     \<in> set (prompt_builders sample_prompts) \<and>
   flagship_reflection_prompt sample_prompts
     (after_generation sample_state ''<flagship v/t/p/m>'' ''<events v/t/p/m>''
        ''<evergreen v/t/p/m>'') =
     Inr ''reflect v/t/p/m: <flagship v/t/p/m>'' \<and>
   (\<lambda>key. no_reflection_model) ''gsk'' ''reflect v/t/p/m: <flagship v/t/p/m>'' =
     Inl (ModelError ''rate limit'') \<and>
   fst (generate_suggestions sample_prompts (\<lambda>key. no_reflection_model) ''gsk'' sample_input) =
     None"
proof -
  have m: "(next_tasks (create_graph sample_prompts ((\<lambda>key. no_reflection_model) ''gsk''))
      [''flagship'', ''seasonal_event'', ''evergreen''],
    after_generation sample_state ''<flagship v/t/p/m>'' ''<events v/t/p/m>''
      ''<evergreen v/t/p/m>'')
     \<in> set (supersteps recursion_limit
          (create_graph sample_prompts ((\<lambda>key. no_reflection_model) ''gsk''))
          (next_tasks (create_graph sample_prompts ((\<lambda>key. no_reflection_model) ''gsk''))
             [START])
          sample_state)"
    by (simp add: recursion_limit_def supersteps_numeral [OF first_tasks_nonempty]
        sample_first_superstep supersteps_numeral [OF second_tasks_nonempty])
  have t: "(''flagship_reflection'',
    flagship_reflection sample_prompts ((\<lambda>key. no_reflection_model) ''gsk''))
     \<in> set (next_tasks (create_graph sample_prompts ((\<lambda>key. no_reflection_model) ''gsk''))
          [''flagship'', ''seasonal_event'', ''evergreen''])"
    by (simp add: second_tasks)
  have b: "(''flagship_reflection'', flagship_reflection_prompt sample_prompts)
     \<in> set (prompt_builders sample_prompts)"
    by (simp add: prompt_builders_def)
  have f: "(\<lambda>key. no_reflection_model) ''gsk'' ''reflect v/t/p/m: <flagship v/t/p/m>'' =
     Inl (ModelError ''rate limit'')"
    by (simp add: no_reflection_model_def)
  from failed_model_call_gives_no_result
    [where ChatGroq = "\<lambda>key. no_reflection_model" and api_key = "''gsk''",
      OF create_initial_state_sample m t b sample_reflection_prompt f]
  obtain e' where "generate_suggestions sample_prompts (\<lambda>key. no_reflection_model) ''gsk''
      sample_input =
    (None, [StError (''An error occurred while generating suggestions: '' @ str_of_error e')])"
    by blast
  then have "fst (generate_suggestions sample_prompts (\<lambda>key. no_reflection_model) ''gsk''
      sample_input) = None"
    by (simp only: fst_conv)
  with create_initial_state_sample m t b sample_reflection_prompt f show ?thesis
    by (simp only: simp_thms)
qed


lemma dict_update_message_entry:
  "dict_update s (no_entries\<lparr>flagship_messages := Some a\<rparr>) = s\<lparr>flagship_messages := Some a\<rparr>"
  "dict_update s (no_entries\<lparr>seasonal_event_messages := Some a\<rparr>) =
     s\<lparr>seasonal_event_messages := Some a\<rparr>"
  "dict_update s (no_entries\<lparr>evergreen_messages := Some a\<rparr>) = s\<lparr>evergreen_messages := Some a\<rparr>"
  by (simp_all add: dict_update_def no_entries_def)

lemma generation_after_write:
  "flagship P model (s\<lparr>seasonal_event_messages := a\<rparr>) = flagship P model s"
  "flagship P model (s\<lparr>evergreen_messages := a\<rparr>) = flagship P model s"
  "seasonal_event P model (s\<lparr>flagship_messages := a\<rparr>) = seasonal_event P model s"
  "seasonal_event P model (s\<lparr>evergreen_messages := a\<rparr>) = seasonal_event P model s"
  "evergreen P model (s\<lparr>flagship_messages := a\<rparr>) = evergreen P model s"
  "evergreen P model (s\<lparr>seasonal_event_messages := a\<rparr>) = evergreen P model s"
  by (simp_all add: flagship_def flagship_prompt_def seasonal_event_def
      seasonal_event_prompt_def evergreen_def evergreen_prompt_def positioning_kwargs_def)

lemma flagship_outcome:
  obtains e where "flagship P model s = Inl e"
  | r where "flagship P model s = Inr (no_entries\<lparr>flagship_messages := Some [assistant r]\<rparr>)"
  by (cases "flagship P model s") (auto simp: flagship_eq_Inr)

lemma seasonal_event_outcome:
  obtains e where "seasonal_event P model s = Inl e"
  | r where "seasonal_event P model s =
      Inr (no_entries\<lparr>seasonal_event_messages := Some [assistant r]\<rparr>)"
  by (cases "seasonal_event P model s") (auto simp: seasonal_event_eq_Inr)

lemma evergreen_outcome:
  obtains e where "evergreen P model s = Inl e"
  | r where "evergreen P model s = Inr (no_entries\<lparr>evergreen_messages := Some [assistant r]\<rparr>)"
  by (cases "evergreen P model s") (auto simp: evergreen_eq_Inr)

subsection \<open>C4: the three generation tasks in any order\<close>

text \<open>
  C4. Running the three independent generation tasks (flagship, seasonal_event,
  evergreen) from the same state one after the other, in any of the six orders, yields
  the same run state, and so does running them side by side in one superstep of the
  graph: each writes only its own key and reads none of the others'. Where a task fails
  there is no state in any order (which failure is reported depends on the order).
\<close>

theorem generation_order_is_irrelevant:
  "result_state (run_sequentially
     [flagship P model, evergreen P model, seasonal_event P model] s) =
   result_state (run_sequentially
     [flagship P model, seasonal_event P model, evergreen P model] s) \<and>
   result_state (run_sequentially
     [seasonal_event P model, flagship P model, evergreen P model] s) =
   result_state (run_sequentially
     [flagship P model, seasonal_event P model, evergreen P model] s) \<and>
   result_state (run_sequentially
     [seasonal_event P model, evergreen P model, flagship P model] s) =
   result_state (run_sequentially
     [flagship P model, seasonal_event P model, evergreen P model] s) \<and>
   result_state (run_sequentially
     [evergreen P model, flagship P model, seasonal_event P model] s) =
   result_state (run_sequentially
     [flagship P model, seasonal_event P model, evergreen P model] s) \<and>
   result_state (run_sequentially
     [evergreen P model, seasonal_event P model, flagship P model] s) =
   result_state (run_sequentially
     [flagship P model, seasonal_event P model, evergreen P model] s) \<and>
   result_state (and_then
     (superstep (create_graph P model) (next_tasks (create_graph P model) [START], s))
     (\<lambda>c. Inr (snd c))) =
   result_state (run_sequentially
     [flagship P model, seasonal_event P model, evergreen P model] s)"
proof -
  show ?thesis
  proof (cases rule: flagship_outcome [of P model s])
    case (1 e)
    then show ?thesis
      by (cases rule: seasonal_event_outcome [of P model s];
          cases rule: evergreen_outcome [of P model s])
        (simp_all add: result_state_def dict_update_message_entry generation_after_write
          superstep_def first_tasks apply_writes_first)
  next
    case (2 rf)
    then show ?thesis
      by (cases rule: seasonal_event_outcome [of P model s];
          cases rule: evergreen_outcome [of P model s])
        (simp_all add: result_state_def dict_update_message_entry generation_after_write
          superstep_def first_tasks apply_writes_first)
  qed
qed

lemma sample_generation_tasks:
  "flagship sample_prompts bracket_model sample_state =
     Inr (no_entries\<lparr>flagship_messages := Some [assistant ''<flagship v/t/p/m>'']\<rparr>)"
  "seasonal_event sample_prompts bracket_model sample_state =
     Inr (no_entries\<lparr>seasonal_event_messages := Some [assistant ''<events v/t/p/m>'']\<rparr>)"
  "evergreen sample_prompts bracket_model sample_state =
     Inr (no_entries\<lparr>evergreen_messages := Some [assistant ''<evergreen v/t/p/m>'']\<rparr>)"
  by (simp_all add: flagship_def flagship_prompt_def seasonal_event_def
      seasonal_event_prompt_def evergreen_def evergreen_prompt_def positioning_kwargs_def
      sample_state_def sample_prompts_def positioning_pieces_def bracket_model_def)

lemma sample_generation:
  "run_sequentially
     [flagship sample_prompts bracket_model, seasonal_event sample_prompts bracket_model,
      evergreen sample_prompts bracket_model] sample_state =
   Inr (after_generation sample_state ''<flagship v/t/p/m>'' ''<events v/t/p/m>''
          ''<evergreen v/t/p/m>'')"
  by (simp add: sample_generation_tasks dict_update_message_entry generation_after_write
      after_generation_def)

theorem generation_order_is_irrelevant_witness:
  "result_state (run_sequentially
     [evergreen sample_prompts bracket_model, seasonal_event sample_prompts bracket_model,
      flagship sample_prompts bracket_model] sample_state) =
   Some (after_generation sample_state ''<flagship v/t/p/m>'' ''<events v/t/p/m>''
          ''<evergreen v/t/p/m>'') \<and>
   result_state (and_then
     (superstep (create_graph sample_prompts bracket_model)
        (next_tasks (create_graph sample_prompts bracket_model) [START], sample_state))
     (\<lambda>c. Inr (snd c))) =
   Some (after_generation sample_state ''<flagship v/t/p/m>'' ''<events v/t/p/m>''
          ''<evergreen v/t/p/m>'')"
proof -
  note t = generation_order_is_irrelevant [of sample_prompts bracket_model sample_state]
  have r: "result_state (run_sequentially
     [flagship sample_prompts bracket_model, seasonal_event sample_prompts bracket_model,
      evergreen sample_prompts bracket_model] sample_state) =
   Some (after_generation sample_state ''<flagship v/t/p/m>'' ''<events v/t/p/m>''
          ''<evergreen v/t/p/m>'')"
    by (simp only: sample_generation result_state_def sum.case)
  from t have "result_state (run_sequentially
     [evergreen sample_prompts bracket_model, seasonal_event sample_prompts bracket_model,
      flagship sample_prompts bracket_model] sample_state) =
    result_state (run_sequentially
     [flagship sample_prompts bracket_model, seasonal_event sample_prompts bracket_model,
      evergreen sample_prompts bracket_model] sample_state)"
    by blast
  moreover from t have "result_state (and_then
     (superstep (create_graph sample_prompts bracket_model)
        (next_tasks (create_graph sample_prompts bracket_model) [START], sample_state))
     (\<lambda>c. Inr (snd c))) =
    result_state (run_sequentially
     [flagship sample_prompts bracket_model, seasonal_event sample_prompts bracket_model,
      evergreen sample_prompts bracket_model] sample_state)"
    by blast
  ultimately show ?thesis
    by (simp only: r simp_thms)
qed


subsection \<open>C2: when the tasks run\<close>

text \<open>
  C2 says that flagship_reflection runs only after flagship has written its output,
  seasonal_content only after seasonal_event has, and editing only after all three of
  flagship_reflection, seasonal_content and evergreen have. The first two hold; the third
  does not. Every completed run has exactly three supersteps. The second one runs
  flagship_reflection and seasonal_content on a state in which flagship, seasonal_event
  and evergreen have written, and it runs editing beside them: the node is subscribed to
  evergreen by an edge of its own, and evergreen ran in the first superstep. That editing
  task reads the still empty lists of the two refinement tasks and calls the model on a
  prompt without their texts. The third superstep runs editing once more, now on all
  three outputs, and its answer replaces the first one.
\<close>

theorem editing_also_runs_before_the_refinements:
  assumes "create_initial_state input_data = Inr s0"
    and "invoke (create_graph P model) s0 = Inr final_state"
  shows
    "\<exists>rf rs re rfr rsc early.
       supersteps recursion_limit (create_graph P model)
         (next_tasks (create_graph P model) [START]) s0 =
         [([(''flagship'', flagship P model),
            (''seasonal_event'', seasonal_event P model),
            (''evergreen'', evergreen P model)],
           s0),
          ([(''flagship_reflection'', flagship_reflection P model),
            (''seasonal_content'', seasonal_content P model),
            (''editing'', editing P model)],
           after_generation s0 rf rs re),
          ([(''editing'', editing P model)],
           after_refinement (after_generation s0 rf rs re) rfr rsc early)] \<and>
       flagship_messages (after_generation s0 rf rs re) = Some [assistant rf] \<and>
       seasonal_event_messages (after_generation s0 rf rs re) = Some [assistant rs] \<and>
       evergreen_messages (after_generation s0 rf rs re) = Some [assistant re] \<and>
       flagship_reflection_messages (after_generation s0 rf rs re) = Some [] \<and>
       seasonal_content_messages (after_generation s0 rf rs re) = Some [] \<and>
       editing P model (after_generation s0 rf rs re) =
         Inr (no_entries\<lparr>editing_messages := Some [assistant early]\<rparr>)"
proof -
  from assms(1) have empty:
    "flagship_reflection_messages s0 = Some []" "seasonal_content_messages s0 = Some []"
    by (auto simp: create_initial_state_eq_Inr)
  from assms(2) obtain rf rs re rfr rsc early red where
    g: "and_then (flagship_prompt P s0) model = Inr rf"
      "and_then (seasonal_event_prompt P s0) model = Inr rs"
      "and_then (evergreen_prompt P s0) model = Inr re"
    and r: "and_then (flagship_reflection_prompt P (after_generation s0 rf rs re)) model = Inr rfr"
      "and_then (seasonal_content_prompt P (after_generation s0 rf rs re)) model = Inr rsc"
      "and_then (editing_prompt P (after_generation s0 rf rs re)) model = Inr early"
    and e: "and_then (editing_prompt P
          (after_refinement (after_generation s0 rf rs re) rfr rsc early)) model = Inr red"
    unfolding invoke_create_graph by blast
  have s1: "superstep (create_graph P model) (next_tasks (create_graph P model) [START], s0) =
      Inr (next_tasks (create_graph P model) [''flagship'', ''seasonal_event'', ''evergreen''],
           after_generation s0 rf rs re)"
    unfolding superstep_first using g by blast
  have s2: "superstep (create_graph P model)
      (next_tasks (create_graph P model) [''flagship'', ''seasonal_event'', ''evergreen''],
       after_generation s0 rf rs re) =
      Inr (next_tasks (create_graph P model)
             [''flagship_reflection'', ''seasonal_content'', ''editing''],
           after_refinement (after_generation s0 rf rs re) rfr rsc early)"
    unfolding superstep_second using r by blast
  have s3: "superstep (create_graph P model)
      (next_tasks (create_graph P model)
         [''flagship_reflection'', ''seasonal_content'', ''editing''],
       after_refinement (after_generation s0 rf rs re) rfr rsc early) =
      Inr ([], (after_refinement (after_generation s0 rf rs re) rfr rsc early)
                 \<lparr>editing_messages := Some [assistant red]\<rparr>)"
    unfolding superstep_third using e by blast
  have "supersteps recursion_limit (create_graph P model)
         (next_tasks (create_graph P model) [START]) s0 =
      [(next_tasks (create_graph P model) [START], s0),
       (next_tasks (create_graph P model) [''flagship'', ''seasonal_event'', ''evergreen''],
        after_generation s0 rf rs re),
       (next_tasks (create_graph P model)
          [''flagship_reflection'', ''seasonal_content'', ''editing''],
        after_refinement (after_generation s0 rf rs re) rfr rsc early)]"
    by (simp add: recursion_limit_def supersteps_numeral [OF first_tasks_nonempty] s1
        supersteps_numeral [OF second_tasks_nonempty] s2
        supersteps_numeral [OF third_tasks_nonempty] s3)
  then have trace: "supersteps recursion_limit (create_graph P model)
         (next_tasks (create_graph P model) [START]) s0 =
         [([(''flagship'', flagship P model),
            (''seasonal_event'', seasonal_event P model),
            (''evergreen'', evergreen P model)],
           s0),
          ([(''flagship_reflection'', flagship_reflection P model),
            (''seasonal_content'', seasonal_content P model),
            (''editing'', editing P model)],
           after_generation s0 rf rs re),
          ([(''editing'', editing P model)],
           after_refinement (after_generation s0 rf rs re) rfr rsc early)]"
    by (simp only: first_tasks second_tasks third_tasks)
  have written: "flagship_messages (after_generation s0 rf rs re) = Some [assistant rf]"
    "seasonal_event_messages (after_generation s0 rf rs re) = Some [assistant rs]"
    "evergreen_messages (after_generation s0 rf rs re) = Some [assistant re]"
    by (simp_all add: after_generation_def)
  have unwritten: "flagship_reflection_messages (after_generation s0 rf rs re) = Some []"
    "seasonal_content_messages (after_generation s0 rf rs re) = Some []"
    by (simp_all add: after_generation_def empty)
  have early: "editing P model (after_generation s0 rf rs re) =
         Inr (no_entries\<lparr>editing_messages := Some [assistant early]\<rparr>)"
    unfolding editing_eq_Inr using r(3) by blast
  from trace written unwritten early show ?thesis by blast
qed

theorem editing_also_runs_before_the_refinements_witness:
  "create_initial_state sample_input = Inr sample_state \<and>
   invoke (create_graph sample_prompts bracket_model) sample_state = Inr sample_final \<and>
   (\<exists>rf rs re rfr rsc early.
       supersteps recursion_limit (create_graph sample_prompts bracket_model)
         (next_tasks (create_graph sample_prompts bracket_model) [START]) sample_state =
         [([(''flagship'', flagship sample_prompts bracket_model),
            (''seasonal_event'', seasonal_event sample_prompts bracket_model),
            (''evergreen'', evergreen sample_prompts bracket_model)],
           sample_state),
          ([(''flagship_reflection'', flagship_reflection sample_prompts bracket_model),
            (''seasonal_content'', seasonal_content sample_prompts bracket_model),
            (''editing'', editing sample_prompts bracket_model)],
           after_generation sample_state rf rs re),
          ([(''editing'', editing sample_prompts bracket_model)],
           after_refinement (after_generation sample_state rf rs re) rfr rsc early)] \<and>
       flagship_reflection_messages (after_generation sample_state rf rs re) = Some [] \<and>
       seasonal_content_messages (after_generation sample_state rf rs re) = Some [] \<and>
       editing sample_prompts bracket_model (after_generation sample_state rf rs re) =
         Inr (no_entries\<lparr>editing_messages := Some [assistant early]\<rparr>))"
proof -
  from editing_also_runs_before_the_refinements [OF create_initial_state_sample sample_run]
  have "\<exists>rf rs re rfr rsc early.
       supersteps recursion_limit (create_graph sample_prompts bracket_model)
         (next_tasks (create_graph sample_prompts bracket_model) [START]) sample_state =
         [([(''flagship'', flagship sample_prompts bracket_model),
            (''seasonal_event'', seasonal_event sample_prompts bracket_model),
            (''evergreen'', evergreen sample_prompts bracket_model)],
           sample_state),
          ([(''flagship_reflection'', flagship_reflection sample_prompts bracket_model),
            (''seasonal_content'', seasonal_content sample_prompts bracket_model),
            (''editing'', editing sample_prompts bracket_model)],
           after_generation sample_state rf rs re),
          ([(''editing'', editing sample_prompts bracket_model)],
           after_refinement (after_generation sample_state rf rs re) rfr rsc early)] \<and>
       flagship_reflection_messages (after_generation sample_state rf rs re) = Some [] \<and>
       seasonal_content_messages (after_generation sample_state rf rs re) = Some [] \<and>
       editing sample_prompts bracket_model (after_generation sample_state rf rs re) =
         Inr (no_entries\<lparr>editing_messages := Some [assistant early]\<rparr>)"
    by blast
  with create_initial_state_sample sample_run show ?thesis
    by (simp only: simp_thms)
qed

lemma sample_early_editing:
  "editing sample_prompts bracket_model
     (after_generation sample_state ''<flagship v/t/p/m>'' ''<events v/t/p/m>''
        ''<evergreen v/t/p/m>'') =
   Inr (no_entries\<lparr>editing_messages :=
          Some [assistant ''<edit v/t/p/m: ; ; <evergreen v/t/p/m>>'']\<rparr>)"
  by (simp add: editing_def editing_prompt_def positioning_kwargs_def joined_content_def
      get_default_def assistant_def after_generation_def sample_state_def sample_prompts_def
      positioning_pieces_def bracket_model_def)

end
